theory Spec2Isabelle
  imports Complex_Main
begin

section \<open>Conversion of AutoML datasets to sequence examples\<close>

text \<open>
  A shallow embedding of \<^verbatim>\<open>utils/automl_format/format_automl_new.py\<close>.
  Label and feature values are floating-point numbers in the program; they are modelled
  by the reals, so rounding, infinities and NaN are outside the model.
\<close>

subsection \<open>Label normalisation\<close>

text \<open>
  \<^verbatim>\<open>np.stack([u, v], axis=1)\<close> on two vectors of equal length: row \<open>i\<close> of the result is
  \<open>[u[i], v[i]]\<close>.
\<close>

definition stack_axis1 :: "real list \<Rightarrow> real list \<Rightarrow> real list list" where
  "stack_axis1 u v = map (\<lambda>(a, b). [a, b]) (zip u v)"

text \<open>\<^verbatim>\<open>binary_to_multilabel\<close>: \<^verbatim>\<open>np.stack([1 - binary_label, binary_label], axis=1)\<close>.\<close>

definition binary_to_multilabel :: "real list \<Rightarrow> real list list" where
  "binary_to_multilabel binary_label =
     stack_axis1 (map (\<lambda>b. 1 - b) binary_label) binary_label"

text \<open>
  \<^verbatim>\<open>np.median\<close> of a vector: the middle element of the sorted vector when the length is
  odd, the mean of the two middle elements when it is even. On the empty vector numpy
  returns NaN (with a warning); the model returns 0 there, a value that is compared with
  no label.
\<close>

definition np_median :: "real list \<Rightarrow> real" where
  "np_median a =
     (let s = sort a; n = length a
      in if n = 0 then 0
         else if odd n then s ! (n div 2)
         else (s ! (n div 2 - 1) + s ! (n div 2)) / 2)"

text \<open>
  \<^verbatim>\<open>regression_to_multilabel\<close>. The comparison \<^verbatim>\<open>regression_label > threshold\<close> gives a
  Boolean vector; \<^verbatim>\<open>1 - binary_label\<close> and the stacking read \<^verbatim>\<open>True\<close> as 1 and
  \<^verbatim>\<open>False\<close> as 0, which is \<^const>\<open>of_bool\<close>. The threshold function is a parameter of the
  source, with \<^verbatim>\<open>np.median\<close> as its default.
\<close>

definition regression_to_multilabel :: "real list \<Rightarrow> (real list \<Rightarrow> real) \<Rightarrow> real list list" where
  "regression_to_multilabel regression_label get_threshold =
     (let threshold = get_threshold regression_label;
          binary_label = map (\<lambda>y. y > threshold) regression_label
      in binary_to_multilabel (map of_bool binary_label))"

subsection \<open>Data model\<close>

text \<open>
  A feature matrix is a numpy array of shape \<open>(num_examples, num_features)\<close> or a scipy
  sparse matrix in CSR form. Both carry their column count (\<^verbatim>\<open>shape[1]\<close>), which a
  matrix without rows has too. A CSR row is its stored entries: the column index
  (\<^verbatim>\<open>indices\<close>) and the value (\<^verbatim>\<open>data\<close>) of each.
\<close>

datatype matrix =
    Dense nat "real list list"
  | Sparse nat "(nat \<times> real) list list"

datatype feature_row = Dense_row "real list" | Csr_row "(nat \<times> real) list"

fun is_sparse :: "matrix \<Rightarrow> bool" where
  "is_sparse (Dense c rs) = False"
| "is_sparse (Sparse c rs) = True"

fun shape0 :: "matrix \<Rightarrow> nat" where
  "shape0 (Dense c rs) = length rs"
| "shape0 (Sparse c rs) = length rs"

fun shape1 :: "matrix \<Rightarrow> nat" where
  "shape1 (Dense c rs) = c"
| "shape1 (Sparse c rs) = c"

text \<open>
  The attribute \<^verbatim>\<open>size\<close>: the number of elements of a numpy array, the number of stored
  entries of a scipy sparse matrix.
\<close>

fun matrix_size :: "matrix \<Rightarrow> nat" where
  "matrix_size (Dense c rs) = length rs * c"
| "matrix_size (Sparse c rs) = sum_list (map length rs)"

text \<open>Iterating over a matrix yields its rows.\<close>

fun matrix_rows :: "matrix \<Rightarrow> feature_row list" where
  "matrix_rows (Dense c rs) = map Dense_row rs"
| "matrix_rows (Sparse c rs) = map Csr_row rs"

text \<open>
  A label array of the data manager: a vector with one scalar per example, or a matrix
  with one row per example and its column count.
\<close>

datatype label_array = Vec "real list" | Mat nat "real list list"

record info =
  info_format :: string
  info_task :: string
  info_name :: string
  info_test_num :: int

record data =
  X_train :: matrix
  X_valid :: matrix
  X_test :: matrix
  Y_train :: label_array
  Y_valid :: label_array
  Y_test :: label_array

record data_manager =
  dm_info :: info
  dm_data :: data

text \<open>The class \<^verbatim>\<open>AutoMLMetadata\<close>, with the fields as the preparation step fills them.\<close>

record metadata =
  dataset_name :: string
  sample_count :: nat
  output_dim :: nat
  set_type :: string
  sequence_size :: int
  row_count :: int
  col_count :: int
  num_channels :: int

subsection \<open>Errors\<close>

text \<open>
  The exceptions of the program as values. \<open>Unmodelled\<close> marks inputs the model does not
  follow: matrices of mixed density in one dataset, and a two-dimensional label array
  under a regression or binary task (the program would go on with an array of rank 3).
\<close>

datatype value_error =
    Wrong_set_type
  | Shape_info_not_specified "int option" "int option" "int option" "int option"
  | Incompatible_metadata int int int int int nat
  | Dimension_mismatch
  | Cannot_reshape nat int

datatype error =
    ValueError value_error
  | NotImplementedError
  | IndexError
  | Unmodelled

subsection \<open>Preparing metadata, features and labels\<close>

text \<open>
  \<^verbatim>\<open>np.concatenate\<close> on two dense matrices and \<^verbatim>\<open>scipy.sparse.vstack\<close> on two sparse
  ones put the rows of the second below those of the first and raise a
  \<^verbatim>\<open>ValueError\<close> when the column counts differ. Which of the two is called depends on
  the training matrix only.
\<close>

fun concat_features :: "matrix \<Rightarrow> matrix \<Rightarrow> error + matrix" where
  "concat_features (Dense c1 r1) (Dense c2 r2) =
     (if c1 = c2 then Inr (Dense c1 (r1 @ r2)) else Inl (ValueError Dimension_mismatch))"
| "concat_features (Sparse c1 r1) (Sparse c2 r2) =
     (if c1 = c2 then Inr (Sparse c1 (r1 @ r2)) else Inl (ValueError Dimension_mismatch))"
| "concat_features (Dense c1 r1) (Sparse c2 r2) = Inl Unmodelled"
| "concat_features (Sparse c1 r1) (Dense c2 r2) = Inl Unmodelled"

text \<open>\<^verbatim>\<open>np.concatenate\<close> on two label arrays: both of the same rank and width.\<close>

fun np_concatenate :: "label_array \<Rightarrow> label_array \<Rightarrow> error + label_array" where
  "np_concatenate (Vec u) (Vec v) = Inr (Vec (u @ v))"
| "np_concatenate (Mat c1 r1) (Mat c2 r2) =
     (if c1 = c2 then Inr (Mat c1 (r1 @ r2)) else Inl (ValueError Dimension_mismatch))"
| "np_concatenate (Vec u) (Mat c2 r2) = Inl (ValueError Dimension_mismatch)"
| "np_concatenate (Mat c1 r1) (Vec v) = Inl (ValueError Dimension_mismatch)"

text \<open>
  The first part of \<^verbatim>\<open>_prepare_metadata_features_and_labels\<close>: the features and labels
  of the split. For the train split the validation rows are put after the training rows
  when \<^verbatim>\<open>X_valid.size\<close> is not zero.
\<close>

definition select_split :: "data_manager \<Rightarrow> string \<Rightarrow> error + (matrix \<times> label_array)" where
  "select_split D st =
     (if st = ''train'' then
        (if matrix_size (X_valid (dm_data D)) \<noteq> 0 then
           (case concat_features (X_train (dm_data D)) (X_valid (dm_data D)) of
              Inl e \<Rightarrow> Inl e
            | Inr features \<Rightarrow>
                (case np_concatenate (Y_train (dm_data D)) (Y_valid (dm_data D)) of
                   Inl e \<Rightarrow> Inl e
                 | Inr labels \<Rightarrow> Inr (features, labels)))
         else Inr (X_train (dm_data D), Y_train (dm_data D)))
      else if st = ''test'' then Inr (X_test (dm_data D), Y_test (dm_data D))
      else Inl (ValueError Wrong_set_type))"

text \<open>
  The second part: regression and binary labels become a two-column matrix, any other
  task leaves the labels as they are.
\<close>

fun to_multilabel :: "(real list \<Rightarrow> real list list) \<Rightarrow> label_array \<Rightarrow> error + label_array" where
  "to_multilabel f (Vec v) = Inr (Mat 2 (f v))"
| "to_multilabel f (Mat c rs) = Inl Unmodelled"

definition normalize_labels :: "string \<Rightarrow> label_array \<Rightarrow> error + label_array" where
  "normalize_labels task labels =
     (if task = ''regression'' then
        to_multilabel (\<lambda>v. regression_to_multilabel v np_median) labels
      else if task = ''binary.classification'' then
        to_multilabel binary_to_multilabel labels
      else Inr labels)"

text \<open>
  The third part: the shape of an example. With no component given the default is
  \<open>(1, 1, features.shape[1], 1)\<close>. The product of the components fails on a missing
  one (\<^verbatim>\<open>None\<close>), which the program reports as a \<^verbatim>\<open>ValueError\<close>; a product different
  from the number of features is a \<^verbatim>\<open>ValueError\<close> that carries the shape, the product
  and the number of features.
\<close>

definition resolve_shape ::
  "int option \<Rightarrow> int option \<Rightarrow> int option \<Rightarrow> int option \<Rightarrow> nat
     \<Rightarrow> error + (int \<times> int \<times> int \<times> int)" where
  "resolve_shape sequence_size0 row_count0 col_count0 num_channels0 num_features =
     (let (s, r, c, ch) =
            (if sequence_size0 = None \<and> row_count0 = None \<and>
                col_count0 = None \<and> num_channels0 = None
             then (Some 1, Some 1, Some (int num_features), Some 1)
             else (sequence_size0, row_count0, col_count0, num_channels0))
      in case (s, r, c, ch) of
           (Some s', Some r', Some c', Some ch') \<Rightarrow>
             (let num_entries = s' * r' * c' * ch'
              in if int num_features \<noteq> num_entries
                 then Inl (ValueError
                        (Incompatible_metadata s' r' c' ch' num_entries num_features))
                 else Inr (s', r', c', ch'))
         | _ \<Rightarrow> Inl (ValueError (Shape_info_not_specified s r c ch)))"

text \<open>
  The whole function. \<^verbatim>\<open>labels.shape[1]\<close> raises an \<^verbatim>\<open>IndexError\<close> on a vector. The
  labels returned are the rows of the label matrix.
\<close>

definition prepare_metadata_features_and_labels ::
  "data_manager \<Rightarrow> string \<Rightarrow> int option \<Rightarrow> int option \<Rightarrow> int option \<Rightarrow> int option
     \<Rightarrow> error + (metadata \<times> matrix \<times> real list list)" where
  "prepare_metadata_features_and_labels D st sequence_size0 row_count0 col_count0
       num_channels0 =
     (case select_split D st of
        Inl e \<Rightarrow> Inl e
      | Inr (features, labels0) \<Rightarrow>
          (case normalize_labels (info_task (dm_info D)) labels0 of
             Inl e \<Rightarrow> Inl e
           | Inr labels \<Rightarrow>
               (case resolve_shape sequence_size0 row_count0 col_count0 num_channels0
                       (shape1 features) of
                  Inl e \<Rightarrow> Inl e
                | Inr (s, r, c, ch) \<Rightarrow>
                    (case labels of
                       Vec v \<Rightarrow> Inl IndexError
                     | Mat d rows \<Rightarrow>
                         Inr (\<lparr>dataset_name = info_name (dm_info D),
                               sample_count = shape0 features,
                               output_dim = d,
                               set_type = st,
                               sequence_size = s,
                               row_count = r,
                               col_count = c,
                               num_channels = ch\<rparr>,
                              features, rows)))))"

subsection \<open>Sequence examples\<close>

text \<open>
  The feature lists of a \<^verbatim>\<open>SequenceExample\<close>: under the key \<^verbatim>\<open>0_dense_input\<close> a list of
  frames, or under the three sparse keys one frame each of column indexes, row indexes
  and values. The context holds the identifier, the label indexes and the label scores.
  Identifiers are Python integers; that they fit the 64 bits of the record format is
  taken for granted.
\<close>

datatype feature_lists =
    Dense_input "real list list"
  | Sparse_input "nat list" "nat list" "real list"

record sequence_example =
  ex_id :: int
  label_index :: "nat list"
  label_score :: "real list"
  ex_feature_lists :: feature_lists

text \<open>\<^verbatim>\<open>csr_feature_vector_to_lists\<close>: column indexes, row indexes (all zero) and values.\<close>

definition csr_feature_vector_to_lists ::
  "(nat \<times> real) list \<Rightarrow> nat list \<times> nat list \<times> real list" where
  "csr_feature_vector_to_lists sparse_feature_vector =
     (let sparse_col_index = map fst sparse_feature_vector;
          sparse_value = map snd sparse_feature_vector;
          sparse_row_index = replicate (length sparse_col_index) 0
      in (sparse_col_index, sparse_row_index, sparse_value))"

text \<open>
  \<^verbatim>\<open>dense_to_sparse_label\<close>: the indexes and the values of the entries that are true,
  that is not zero, in the order of the row.
\<close>

definition dense_to_sparse_label :: "real list \<Rightarrow> nat list \<times> real list" where
  "dense_to_sparse_label dense_label =
     (let kept = filter (\<lambda>(index, v). v \<noteq> 0) (enumerate 0 dense_label)
      in (map fst kept, map snd kept))"

text \<open>
  \<^verbatim>\<open>np.reshape(feature_row, (sequence_size, -1))\<close>: \<open>sequence_size\<close> frames of equal
  length, one after the other in the row. numpy raises a \<^verbatim>\<open>ValueError\<close> when the
  number of frames is not positive or does not divide the length of the row.
\<close>

definition np_reshape :: "real list \<Rightarrow> int \<Rightarrow> error + real list list" where
  "np_reshape feature_row s =
     (if 0 < s \<and> int (length feature_row) mod s = 0 then
        (let m = length feature_row div nat s
         in Inr (map (\<lambda>i. take m (drop (i * m) feature_row)) [0..<nat s]))
      else Inl (ValueError (Cannot_reshape (length feature_row) s)))"

text \<open>
  The body of the loop of \<^verbatim>\<open>convert_vectors_to_sequence_example\<close> up to the call of
  \<^verbatim>\<open>writer.write\<close>: the example built from one feature row and one label row. The rows
  of a sparse matrix are the CSR rows, those of a dense one the dense rows, so the test
  \<^verbatim>\<open>has_sparse_features\<close> is the case distinction on the row.
\<close>

definition encode_example ::
  "bool \<Rightarrow> int \<Rightarrow> int \<Rightarrow> nat \<Rightarrow> feature_row \<Rightarrow> real list \<Rightarrow> error + sequence_example" where
  "encode_example is_test_set id_translation seq_size counter feature_row label_row =
     (let (label_indexes, label_scores) =
            (if is_test_set then ([], []) else dense_to_sparse_label label_row);
          ident = int counter + id_translation
      in case feature_row of
           Csr_row v \<Rightarrow>
             (if seq_size \<noteq> 1 then Inl NotImplementedError
              else (case csr_feature_vector_to_lists v of
                      (sparse_col_index, sparse_row_index, sparse_value) \<Rightarrow>
                        Inr \<lparr>ex_id = ident, label_index = label_indexes,
                             label_score = label_scores,
                             ex_feature_lists =
                               Sparse_input sparse_col_index sparse_row_index sparse_value\<rparr>))
         | Dense_row v \<Rightarrow>
             (if seq_size = 1 then
                Inr \<lparr>ex_id = ident, label_index = label_indexes,
                     label_score = label_scores, ex_feature_lists = Dense_input [v]\<rparr>
              else (case np_reshape v seq_size of
                      Inl e \<Rightarrow> Inl e
                    | Inr frames \<Rightarrow>
                        Inr \<lparr>ex_id = ident, label_index = label_indexes,
                             label_score = label_scores,
                             ex_feature_lists = Dense_input frames\<rparr>)))"

subsection \<open>Writing a split\<close>

text \<open>
  Files are named by their directory and their name in it. A file holds the labels of a
  solution, the examples of a record file, or the values put into the fixed text of
  \<^verbatim>\<open>metadata.textproto\<close>.
\<close>

type_synonym path = "string \<times> string"

record textproto =
  tp_sample_count :: nat
  tp_sequence_size :: int
  tp_output_dim :: nat
  tp_col_count :: int
  tp_row_count :: int
  tp_num_channels :: int
  tp_format :: string

datatype file_content =
    Solution_file "real list list"
  | Record_file "sequence_example list"
  | Metadata_file textproto

type_synonym filesystem = "path \<rightharpoonup> file_content"

text \<open>\<^verbatim>\<open>_write_metadata_textproto\<close>: the file is written beside the record file.\<close>

definition write_metadata_textproto ::
  "nat \<Rightarrow> metadata \<Rightarrow> info \<Rightarrow> path \<Rightarrow> filesystem \<Rightarrow> filesystem" where
  "write_metadata_textproto counter md D_info filepath fs =
     fs((fst filepath, ''metadata.textproto'') \<mapsto>
        Metadata_file
          \<lparr>tp_sample_count = counter,
           tp_sequence_size = sequence_size md,
           tp_output_dim = output_dim md,
           tp_col_count = col_count md,
           tp_row_count = row_count md,
           tp_num_channels = num_channels md,
           tp_format = (if info_format D_info = ''dense'' then ''DENSE'' else ''SPARSE'')\<rparr>)"

text \<open>
  The test at the end of the loop body: \<^verbatim>\<open>max_num_examples and counter >= max_num_examples\<close>.
  \<^verbatim>\<open>None\<close> and 0 are both false in Python.
\<close>

definition limit_reached :: "int option \<Rightarrow> nat \<Rightarrow> bool" where
  "limit_reached max_num_examples counter =
     (case max_num_examples of
        None \<Rightarrow> False
      | Some k \<Rightarrow> k \<noteq> 0 \<and> int counter \<ge> k)"

text \<open>
  The loop over \<^verbatim>\<open>zip(features, labels)\<close>, from a value of the counter on: the error
  raised if any, the counter at the end, and the examples written.
\<close>

fun write_loop ::
  "bool \<Rightarrow> int \<Rightarrow> int \<Rightarrow> int option \<Rightarrow> (feature_row \<times> real list) list \<Rightarrow> nat
     \<Rightarrow> error option \<times> nat \<times> sequence_example list" where
  "write_loop is_test_set id_translation seq_size max_num_examples [] counter =
     (None, counter, [])"
| "write_loop is_test_set id_translation seq_size max_num_examples
       ((feature_row, label_row) # rest) counter =
     (case encode_example is_test_set id_translation seq_size counter feature_row label_row of
        Inl e \<Rightarrow> (Some e, counter, [])
      | Inr ex \<Rightarrow>
          (if limit_reached max_num_examples (counter + 1) then (None, counter + 1, [ex])
           else (case write_loop is_test_set id_translation seq_size max_num_examples
                        rest (counter + 1) of
                   (err, c, written) \<Rightarrow> (err, c, ex # written))))"

text \<open>
  \<^verbatim>\<open>convert_vectors_to_sequence_example\<close>. For the test split the solution file is saved
  first. Opening the writer creates the record file; an error in the loop leaves the
  file with the examples written so far and no metadata file is written.
\<close>

definition convert_vectors_to_sequence_example ::
  "path \<Rightarrow> metadata \<Rightarrow> matrix \<Rightarrow> real list list \<Rightarrow> info \<Rightarrow> int option \<Rightarrow> filesystem
     \<Rightarrow> error option \<times> filesystem" where
  "convert_vectors_to_sequence_example filepath md features labels D_info
       max_num_examples fs =
     (let is_test_set = (set_type md = ''test'');
          id_translation = (if is_test_set then 0 else info_test_num D_info);
          fs1 = (if is_test_set
                 then fs((fst filepath, dataset_name md @ ''.solution'') \<mapsto>
                         Solution_file labels)
                 else fs);
          fs2 = fs1(filepath \<mapsto> Record_file [])
      in case write_loop is_test_set id_translation (sequence_size md) max_num_examples
                (zip (matrix_rows features) labels) 0 of
           (err, counter, written) \<Rightarrow>
             (let fs3 = fs2(filepath \<mapsto> Record_file written)
              in case err of
                   Some e \<Rightarrow> (Some e, fs3)
                 | None \<Rightarrow>
                     (None, write_metadata_textproto counter md D_info filepath fs3)))"

subsection \<open>Formatting a dataset\<close>

text \<open>
  \<^verbatim>\<open>press_a_button_and_give_me_an_AutoDL_dataset\<close> from the test split to the train
  split: each split is prepared with the shape given on the command line and written to
  its own directory under the data directory of the dataset. An error ends the run and
  leaves the files written so far. The steps around them (making the directories,
  moving the solution file, copying the info files) write no record file and are left
  out.
\<close>

definition record_filepath :: "string \<Rightarrow> string \<Rightarrow> string \<Rightarrow> path" where
  "record_filepath dataset_data_dir name st =
     (dataset_data_dir @ ''/'' @ st, ''sample-'' @ name @ ''-'' @ st @ ''.tfrecord'')"

definition format_split ::
  "data_manager \<Rightarrow> string \<Rightarrow> string \<Rightarrow> string
     \<Rightarrow> int option \<Rightarrow> int option \<Rightarrow> int option \<Rightarrow> int option
     \<Rightarrow> int option \<Rightarrow> filesystem \<Rightarrow> error option \<times> filesystem" where
  "format_split D name dataset_data_dir st sequence_size0 row_count0 col_count0
       num_channels0 max_num_examples fs =
     (case prepare_metadata_features_and_labels D st sequence_size0 row_count0 col_count0
             num_channels0 of
        Inl e \<Rightarrow> (Some e, fs)
      | Inr (md, features, labels) \<Rightarrow>
          convert_vectors_to_sequence_example (record_filepath dataset_data_dir name st)
            md features labels (dm_info D) max_num_examples fs)"

definition press_a_button_and_give_me_an_AutoDL_dataset ::
  "data_manager \<Rightarrow> string \<Rightarrow> string
     \<Rightarrow> int option \<Rightarrow> int option \<Rightarrow> int option \<Rightarrow> int option
     \<Rightarrow> int option \<Rightarrow> int option \<Rightarrow> filesystem \<Rightarrow> error option \<times> filesystem" where
  "press_a_button_and_give_me_an_AutoDL_dataset D name dataset_data_dir
       sequence_size0 row_count0 col_count0 num_channels0
       max_num_examples_train max_num_examples_test fs =
     (case format_split D name dataset_data_dir ''test'' sequence_size0 row_count0
             col_count0 num_channels0 max_num_examples_test fs of
        (Some e, fs') \<Rightarrow> (Some e, fs')
      | (None, fs') \<Rightarrow>
          format_split D name dataset_data_dir ''train'' sequence_size0 row_count0
            col_count0 num_channels0 max_num_examples_train fs')"

text \<open>Reading the results: the examples of a record file, and the metadata of a directory.\<close>

definition records_at :: "filesystem \<Rightarrow> path \<Rightarrow> sequence_example list option" where
  "records_at fs p = (case fs p of Some (Record_file rs) \<Rightarrow> Some rs | _ \<Rightarrow> None)"

definition metadata_at :: "filesystem \<Rightarrow> string \<Rightarrow> textproto option" where
  "metadata_at fs dir =
     (case fs (dir, ''metadata.textproto'') of Some (Metadata_file t) \<Rightarrow> Some t | _ \<Rightarrow> None)"

text \<open>
  The examples of a list of rows, each with the value the counter has when the loop
  reaches it: what the loop writes as long as no row fails and no limit stops it.
\<close>

definition encode_rows ::
  "bool \<Rightarrow> int \<Rightarrow> int \<Rightarrow> (feature_row \<times> real list) list \<Rightarrow> nat
     \<Rightarrow> (error + sequence_example) list" where
  "encode_rows is_test_set id_translation seq_size rows counter =
     map (\<lambda>(i, feature_row, label_row).
            encode_example is_test_set id_translation seq_size i feature_row label_row)
         (enumerate counter rows)"

subsection \<open>Example datasets\<close>

text \<open>
  A dense binary dataset with three training rows, two validation rows and three test
  rows of two features each.
\<close>

definition adult_info :: info where
  "adult_info =
     \<lparr>info_format = ''dense'', info_task = ''binary.classification'',
      info_name = ''adult'', info_test_num = 3\<rparr>"

definition adult_data :: data where
  "adult_data =
     \<lparr>X_train = Dense 2 [[1, 2], [3, 4], [5, 6]],
      X_valid = Dense 2 [[7, 8], [9, 10]],
      X_test = Dense 2 [[0, 1], [1, 0], [1, 1]],
      Y_train = Vec [0, 1, 1],
      Y_valid = Vec [1, 0],
      Y_test = Vec [1, 0, 1]\<rparr>"

definition adult :: data_manager where
  "adult = \<lparr>dm_info = adult_info, dm_data = adult_data\<rparr>"

text \<open>
  A sparse binary dataset with three features: three training rows, one test row, and
  two validation rows that store no entry (all their features are zero).
\<close>

definition dexter_info :: info where
  "dexter_info =
     \<lparr>info_format = ''sparse'', info_task = ''binary.classification'',
      info_name = ''dexter'', info_test_num = 1\<rparr>"

definition dexter_data :: data where
  "dexter_data =
     \<lparr>X_train = Sparse 3 [[(0, 1)], [(1, 2)], [(0, 4), (2, 3)]],
      X_valid = Sparse 3 [[], []],
      X_test = Sparse 3 [[(1, 5)]],
      Y_train = Vec [0, 1, 1],
      Y_valid = Vec [1, 0],
      Y_test = Vec [1]\<rparr>"

definition dexter :: data_manager where
  "dexter = \<lparr>dm_info = dexter_info, dm_data = dexter_data\<rparr>"

text \<open>The metadata of the test split of the sparse dataset with two frames declared.\<close>

definition dexter_test_metadata :: metadata where
  "dexter_test_metadata =
     \<lparr>dataset_name = ''dexter'', sample_count = 1, output_dim = 2, set_type = ''test'',
      sequence_size = 2, row_count = 1, col_count = 3, num_channels = 1\<rparr>"

text \<open>The metadata of the test split of the dense dataset with the default shape.\<close>

definition adult_test_metadata :: metadata where
  "adult_test_metadata =
     \<lparr>dataset_name = ''adult'', sample_count = 3, output_dim = 2, set_type = ''test'',
      sequence_size = 1, row_count = 1, col_count = 2, num_channels = 1\<rparr>"

text \<open>
  Formatting the dense dataset with the default shape into an empty file system: once
  with no limit, once with at most two test examples.
\<close>

definition adult_run :: "error option \<times> filesystem" where
  "adult_run =
     press_a_button_and_give_me_an_AutoDL_dataset adult ''adult'' ''out/adult.data''
       None None None None None None Map.empty"

definition adult_truncated_run :: "error option \<times> filesystem" where
  "adult_truncated_run =
     press_a_button_and_give_me_an_AutoDL_dataset adult ''adult'' ''out/adult.data''
       None None None None None (Some 2) Map.empty"

text \<open>
  The dense dataset with two validation rows whose features are all zero, and the run
  that formats the sparse dataset with the default shape and no limit.
\<close>

definition adult_zero_valid :: data_manager where
  "adult_zero_valid =
     \<lparr>dm_info = adult_info, dm_data = adult_data\<lparr>X_valid := Dense 2 [[0, 0], [0, 0]]\<rparr>\<rparr>"

definition dexter_run :: "error option \<times> filesystem" where
  "dexter_run =
     press_a_button_and_give_me_an_AutoDL_dataset dexter ''dexter'' ''out/dexter.data''
       None None None None None None Map.empty"

subsection \<open>Properties of the label normaliser\<close>

lemma stack_axis1_map: "stack_axis1 (map f xs) (map g xs) = map (\<lambda>x. [f x, g x]) xs"
  by (induction xs) (simp_all add: stack_axis1_def)

lemma binary_to_multilabel_map:
  "binary_to_multilabel bs = map (\<lambda>b. [1 - b, b]) bs"
  using stack_axis1_map [of "\<lambda>b. 1 - b" bs "\<lambda>b. b"]
  by (simp add: binary_to_multilabel_def)

lemma regression_to_multilabel_map:
  "regression_to_multilabel ys t =
     map (\<lambda>y. [of_bool (\<not> y > t ys), of_bool (y > t ys)]) ys"
  by (simp add: regression_to_multilabel_def binary_to_multilabel_map Let_def
      of_bool_def)

lemma np_median_example: "np_median [1, 2, 3, 4, 5] = 3"
  by (simp add: np_median_def)

text \<open>
  The value of \<^const>\<open>np_median\<close> is a median: at least half of the entries are not above
  it and at least half are not below it. So at most half of the examples of a regression
  task are labelled as above the threshold.
\<close>

lemma sorted_count_below:
  fixes s :: "real list"
  assumes "sorted s" and "i < length s" and "s ! i \<le> m"
  shows "Suc i \<le> length (filter (\<lambda>y. y \<le> m) s)"
proof -
  have "\<forall>y \<in> set (take (Suc i) s). y \<le> m"
  proof
    fix y assume "y \<in> set (take (Suc i) s)"
    then obtain j where "j < Suc i" "j < length s" "y = s ! j"
      by (auto simp: in_set_conv_nth)
    with assms show "y \<le> m"
      using sorted_nth_mono [of s j i] by simp
  qed
  then have "filter (\<lambda>y. y \<le> m) (take (Suc i) s) = take (Suc i) s"
    by simp
  moreover have "filter (\<lambda>y. y \<le> m) s =
      filter (\<lambda>y. y \<le> m) (take (Suc i) s) @ filter (\<lambda>y. y \<le> m) (drop (Suc i) s)"
    by (metis append_take_drop_id filter_append)
  ultimately have "length (filter (\<lambda>y. y \<le> m) s) \<ge> length (take (Suc i) s)"
    by simp
  with assms(2) show ?thesis by simp
qed

lemma sorted_count_above:
  fixes s :: "real list"
  assumes "sorted s" and "i < length s" and "m \<le> s ! i"
  shows "length s - i \<le> length (filter (\<lambda>y. m \<le> y) s)"
proof -
  have "\<forall>y \<in> set (drop i s). m \<le> y"
  proof
    fix y assume "y \<in> set (drop i s)"
    then obtain j where "j < length s - i" "y = s ! (i + j)"
      by (auto simp: in_set_conv_nth)
    with assms have "s ! i \<le> y"
      using sorted_nth_mono [of s i "i + j"] by simp
    with assms(3) show "m \<le> y" by linarith
  qed
  then have "filter (\<lambda>y. m \<le> y) (drop i s) = drop i s"
    by simp
  moreover have "filter (\<lambda>y. m \<le> y) s =
      filter (\<lambda>y. m \<le> y) (take i s) @ filter (\<lambda>y. m \<le> y) (drop i s)"
    by (metis append_take_drop_id filter_append)
  ultimately have "length (filter (\<lambda>y. m \<le> y) s) \<ge> length (drop i s)"
    by simp
  then show ?thesis by simp
qed

lemma length_filter_sort:
  "length (filter P (sort (ys :: real list))) = length (filter P ys)"
  by (simp add: filter_sort)

lemma np_median_is_median:
  "length ys \<le> 2 * length (filter (\<lambda>y. y \<le> np_median ys) ys)
   \<and> length ys \<le> 2 * length (filter (\<lambda>y. np_median ys \<le> y) ys)"
proof (cases "ys = []")
  case True
  then show ?thesis by simp
next
  case False
  define s where "s = sort ys"
  define n where "n = length ys"
  have srt: "sorted s" and ls: "length s = n" and pos: "0 < n"
    using False by (simp_all add: s_def n_def)
  have below: "length (filter (\<lambda>y. y \<le> m) ys) = length (filter (\<lambda>y. y \<le> m) s)"
    and above: "length (filter (\<lambda>y. m \<le> y) ys) = length (filter (\<lambda>y. m \<le> y) s)" for m
    by (simp_all add: s_def length_filter_sort)
  show ?thesis
  proof (cases "odd n")
    case True
    then have m: "np_median ys = s ! (n div 2)"
      using pos by (simp add: np_median_def s_def n_def Let_def)
    have i: "n div 2 < length s" using pos ls by simp
    from sorted_count_below [OF srt i, of "np_median ys"] m
    have "Suc (n div 2) \<le> length (filter (\<lambda>y. y \<le> np_median ys) ys)"
      by (simp add: below)
    moreover from sorted_count_above [OF srt i, of "np_median ys"] m
    have "n - n div 2 \<le> length (filter (\<lambda>y. np_median ys \<le> y) ys)"
      by (simp add: above ls)
    ultimately show ?thesis unfolding n_def [symmetric] by linarith
  next
    case False
    then have m: "np_median ys = (s ! (n div 2 - 1) + s ! (n div 2)) / 2"
      using pos by (simp add: np_median_def s_def n_def Let_def)
    from False pos have h0: "0 < n div 2" "n div 2 < n" "n div 2 - 1 < n" "2 * (n div 2) = n"
      by presburger+
    then have h: "0 < n div 2" "n div 2 < length s" "n div 2 - 1 < length s"
        "2 * (n div 2) = n"
      using ls by simp_all
    have "s ! (n div 2 - 1) \<le> s ! (n div 2)"
      using sorted_nth_mono [OF srt, of "n div 2 - 1" "n div 2"] h by simp
    with m have lo: "s ! (n div 2 - 1) \<le> np_median ys" and hi: "np_median ys \<le> s ! (n div 2)"
      by simp_all
    from sorted_count_below [OF srt h(3) lo] h(1)
    have "n div 2 \<le> length (filter (\<lambda>y. y \<le> np_median ys) ys)"
      by (simp add: below)
    moreover from sorted_count_above [OF srt h(2) hi]
    have "n - n div 2 \<le> length (filter (\<lambda>y. np_median ys \<le> y) ys)"
      by (simp add: above ls)
    ultimately show ?thesis unfolding n_def [symmetric] using h(4) by linarith
  qed
qed

lemma above_median_at_most_half:
  "2 * length (filter (\<lambda>y. y > np_median ys) ys) \<le> length ys"
proof -
  have "length (filter (\<lambda>y. y \<le> np_median ys) ys) +
      length (filter (\<lambda>y. y > np_median ys) ys) = length ys"
    using sum_length_filter_compl [of "\<lambda>y. y \<le> np_median ys" ys]
    by (simp add: not_le)
  with np_median_is_median [of ys] show ?thesis by linarith
qed

subsection \<open>Properties of the shape of an example\<close>

lemma resolve_shape_all_set:
  "resolve_shape (Some s) (Some r) (Some c) (Some ch) w =
     (if s * r * c * ch = int w then Inr (s, r, c, ch)
      else Inl (ValueError (Incompatible_metadata s r c ch (s * r * c * ch) w)))"
  by (simp add: resolve_shape_def)

lemma resolve_shape_default: "resolve_shape None None None None w = Inr (1, 1, int w, 1)"
  by (simp add: resolve_shape_def)

lemma resolve_shape_accepted:
  "resolve_shape s0 r0 c0 ch0 w = Inr (s, r, c, ch) \<Longrightarrow> s * r * c * ch = int w"
  by (auto simp: resolve_shape_def Let_def split: if_splits option.splits)

lemma prepare_accepted_shape:
  "prepare_metadata_features_and_labels D st s0 r0 c0 ch0 = Inr (md, features, labels) \<Longrightarrow>
     resolve_shape s0 r0 c0 ch0 (shape1 features) =
       Inr (sequence_size md, row_count md, col_count md, num_channels md)"
  by (auto simp: prepare_metadata_features_and_labels_def
      split: sum.splits prod.splits label_array.splits)

lemma prepare_shape_error:
  "select_split D st = Inr (features, labels0) \<Longrightarrow>
   normalize_labels (info_task (dm_info D)) labels0 = Inr labels \<Longrightarrow>
   resolve_shape s0 r0 c0 ch0 (shape1 features) = Inl e \<Longrightarrow>
   prepare_metadata_features_and_labels D st s0 r0 c0 ch0 = Inl e"
  by (simp add: prepare_metadata_features_and_labels_def)

lemma prepare_shape_ok:
  "select_split D st = Inr (features, labels0) \<Longrightarrow>
   normalize_labels (info_task (dm_info D)) labels0 = Inr (Mat d rows) \<Longrightarrow>
   resolve_shape s0 r0 c0 ch0 (shape1 features) = Inr (s, r, c, ch) \<Longrightarrow>
   prepare_metadata_features_and_labels D st s0 r0 c0 ch0 =
     Inr (\<lparr>dataset_name = info_name (dm_info D), sample_count = shape0 features,
           output_dim = d, set_type = st, sequence_size = s, row_count = r,
           col_count = c, num_channels = ch\<rparr>, features, rows)"
  by (simp add: prepare_metadata_features_and_labels_def)

text \<open>
  Claim C7. When all four components of the shape are given and their product differs
  from the number of features, the preparation fails with the \<^verbatim>\<open>ValueError\<close> that
  carries the product and the number of features, and formatting the split stops there
  with the files unchanged, so no record is written. Every shape the preparation
  accepts has the number of features as its product.
\<close>

theorem shape_mismatch_rejected:
  "resolve_shape (Some s) (Some r) (Some c) (Some ch) w =
     (if s * r * c * ch = int w then Inr (s, r, c, ch)
      else Inl (ValueError (Incompatible_metadata s r c ch (s * r * c * ch) w)))
   \<and> (select_split D st = Inr (features, labels0) \<and>
       normalize_labels (info_task (dm_info D)) labels0 = Inr labels \<and>
       s * r * c * ch \<noteq> int (shape1 features) \<longrightarrow>
         prepare_metadata_features_and_labels D st (Some s) (Some r) (Some c) (Some ch) =
           Inl (ValueError
                  (Incompatible_metadata s r c ch (s * r * c * ch) (shape1 features)))
       \<and> format_split D name dir st (Some s) (Some r) (Some c) (Some ch) m fs =
           (Some (ValueError
                    (Incompatible_metadata s r c ch (s * r * c * ch) (shape1 features))),
            fs))
   \<and> (prepare_metadata_features_and_labels D st s0 r0 c0 ch0 = Inr (md, features', labels')
        \<longrightarrow> sequence_size md * row_count md * col_count md * num_channels md =
             int (shape1 features'))"
proof (intro conjI impI)
  show "resolve_shape (Some s) (Some r) (Some c) (Some ch) w =
     (if s * r * c * ch = int w then Inr (s, r, c, ch)
      else Inl (ValueError (Incompatible_metadata s r c ch (s * r * c * ch) w)))"
    by (rule resolve_shape_all_set)
next
  assume h: "select_split D st = Inr (features, labels0) \<and>
       normalize_labels (info_task (dm_info D)) labels0 = Inr labels \<and>
       s * r * c * ch \<noteq> int (shape1 features)"
  then have e: "resolve_shape (Some s) (Some r) (Some c) (Some ch) (shape1 features) =
      Inl (ValueError (Incompatible_metadata s r c ch (s * r * c * ch) (shape1 features)))"
    by (simp add: resolve_shape_all_set)
  from h e show p: "prepare_metadata_features_and_labels D st (Some s) (Some r) (Some c) (Some ch) =
      Inl (ValueError (Incompatible_metadata s r c ch (s * r * c * ch) (shape1 features)))"
    using prepare_shape_error by blast
  then show "format_split D name dir st (Some s) (Some r) (Some c) (Some ch) m fs =
      (Some (ValueError (Incompatible_metadata s r c ch (s * r * c * ch) (shape1 features))), fs)"
    by (simp add: format_split_def)
next
  assume "prepare_metadata_features_and_labels D st s0 r0 c0 ch0 = Inr (md, features', labels')"
  then show "sequence_size md * row_count md * col_count md * num_channels md =
      int (shape1 features')"
    using prepare_accepted_shape resolve_shape_accepted by blast
qed

lemma adult_test_split:
  "select_split adult ''test'' = Inr (Dense 2 [[0, 1], [1, 0], [1, 1]], Vec [1, 0, 1])"
  by (simp add: select_split_def adult_def adult_data_def)

lemma adult_test_labels:
  "normalize_labels (info_task (dm_info adult)) (Vec [1, 0, 1]) =
     Inr (Mat 2 [[0, 1], [1, 0], [0, 1]])"
  by (simp add: normalize_labels_def adult_def adult_info_def binary_to_multilabel_map)

theorem shape_mismatch_rejected_witness:
  "prepare_metadata_features_and_labels adult ''test'' (Some 1) (Some 1) (Some 3) (Some 1) =
     Inl (ValueError (Incompatible_metadata 1 1 3 1 3 2))
   \<and> format_split adult ''adult'' ''out'' ''test'' (Some 1) (Some 1) (Some 3) (Some 1) None
        Map.empty =
       (Some (ValueError (Incompatible_metadata 1 1 3 1 3 2)), Map.empty)
   \<and> resolve_shape (Some 1) (Some 2) (Some 1) (Some 1) 2 = Inr (1, 2, 1, 1)"
  using shape_mismatch_rejected [of 1 1 3 1 2 adult "''test''"
      "Dense 2 [[0, 1], [1, 0], [1, 1]]" "Vec [1, 0, 1]" "Mat 2 [[0, 1], [1, 0], [0, 1]]"
      "''adult''" "''out''" None Map.empty]
    shape_mismatch_rejected [of 1 2 1 1 2]
    adult_test_split adult_test_labels
  by simp

text \<open>
  Claim C8. When none of the four components of the shape is given, the shape is
  \<open>(1, 1, number of features, 1)\<close>, and it is accepted whatever the number of features
  is: the preparation returns the metadata with that shape.
\<close>

theorem default_shape_accepted:
  "resolve_shape None None None None w = Inr (1, 1, int w, 1)
   \<and> (select_split D st = Inr (features, labels0) \<and>
       normalize_labels (info_task (dm_info D)) labels0 = Inr (Mat d rows) \<longrightarrow>
         prepare_metadata_features_and_labels D st None None None None =
           Inr (\<lparr>dataset_name = info_name (dm_info D), sample_count = shape0 features,
                 output_dim = d, set_type = st, sequence_size = 1, row_count = 1,
                 col_count = int (shape1 features), num_channels = 1\<rparr>, features, rows))"
  using prepare_shape_ok [of D st features labels0 d rows None None None None
      1 1 "int (shape1 features)" 1]
  by (simp add: resolve_shape_default)

theorem default_shape_accepted_witness:
  "prepare_metadata_features_and_labels adult ''test'' None None None None =
     Inr (\<lparr>dataset_name = ''adult'', sample_count = 3, output_dim = 2, set_type = ''test'',
           sequence_size = 1, row_count = 1, col_count = 2, num_channels = 1\<rparr>,
          Dense 2 [[0, 1], [1, 0], [1, 1]], [[0, 1], [1, 0], [0, 1]])"
  using default_shape_accepted [of 2 adult "''test''"
      "Dense 2 [[0, 1], [1, 0], [1, 1]]" "Vec [1, 0, 1]" 2 "[[0, 1], [1, 0], [0, 1]]"]
    adult_test_split adult_test_labels
  by (simp add: adult_def adult_info_def)

subsection \<open>Merging the validation rows into the train split\<close>

lemma concat_features_same_kind:
  "is_sparse a = is_sparse b \<Longrightarrow> shape1 a = shape1 b \<Longrightarrow>
   \<exists>f. concat_features a b = Inr f \<and> matrix_rows f = matrix_rows a @ matrix_rows b \<and>
       is_sparse f = is_sparse a \<and> shape1 f = shape1 a \<and> shape0 f = shape0 a + shape0 b"
  by (cases a; cases b) simp_all

lemma np_concatenate_Inr:
  "np_concatenate a b = Inr l \<Longrightarrow>
     (\<exists>u v. a = Vec u \<and> b = Vec v \<and> l = Vec (u @ v)) \<or>
     (\<exists>c r1 r2. a = Mat c r1 \<and> b = Mat c r2 \<and> l = Mat c (r1 @ r2))"
  by (cases a; cases b) (auto split: if_splits)

lemma select_split_train_merged:
  assumes "matrix_size (X_valid (dm_data D)) \<noteq> 0"
    and "concat_features (X_train (dm_data D)) (X_valid (dm_data D)) = Inr f"
    and "np_concatenate (Y_train (dm_data D)) (Y_valid (dm_data D)) = Inr l"
  shows "select_split D ''train'' = Inr (f, l)"
  using assms by (simp add: select_split_def)

lemma select_split_train_alone:
  "matrix_size (X_valid (dm_data D)) = 0 \<Longrightarrow>
   select_split D ''train'' = Inr (X_train (dm_data D), Y_train (dm_data D))"
  by (simp add: select_split_def)

lemma prepare_features_of_split:
  "prepare_metadata_features_and_labels D st s0 r0 c0 ch0 = Inr (md, features, labels) \<Longrightarrow>
   \<exists>labels0. select_split D st = Inr (features, labels0) \<and> sample_count md = shape0 features"
  by (auto simp: prepare_metadata_features_and_labels_def
      split: sum.splits prod.splits label_array.splits)

lemma dense_size_positive:
  "matrix_size (Dense c rs) \<noteq> 0 \<longleftrightarrow> rs \<noteq> [] \<and> c \<noteq> 0"
  by simp

text \<open>
  The merge in terms of \<^verbatim>\<open>X_valid.size\<close>. When it is not zero (a dense validation
  matrix with at least one row and one column, a sparse one with at least one stored
  entry) and the two matrices have the same density and width, the features are the
  training rows followed by the validation rows, and the labels are the training labels
  followed by the validation labels. When it is zero the training features and labels
  are used as they are. The features the preparation returns for the train split are
  these.
\<close>

theorem train_split_absorbs_validation:
  "(matrix_size (X_valid (dm_data D)) \<noteq> 0 \<and>
    is_sparse (X_train (dm_data D)) = is_sparse (X_valid (dm_data D)) \<and>
    shape1 (X_train (dm_data D)) = shape1 (X_valid (dm_data D)) \<and>
    np_concatenate (Y_train (dm_data D)) (Y_valid (dm_data D)) = Inr labels0 \<longrightarrow>
      (\<exists>features. select_split D ''train'' = Inr (features, labels0) \<and>
         matrix_rows features =
           matrix_rows (X_train (dm_data D)) @ matrix_rows (X_valid (dm_data D)) \<and>
         is_sparse features = is_sparse (X_train (dm_data D)) \<and>
         shape1 features = shape1 (X_train (dm_data D)) \<and>
         shape0 features = shape0 (X_train (dm_data D)) + shape0 (X_valid (dm_data D))) \<and>
      ((\<exists>u v. Y_train (dm_data D) = Vec u \<and> Y_valid (dm_data D) = Vec v \<and>
            labels0 = Vec (u @ v)) \<or>
       (\<exists>c r1 r2. Y_train (dm_data D) = Mat c r1 \<and> Y_valid (dm_data D) = Mat c r2 \<and>
            labels0 = Mat c (r1 @ r2))))
   \<and> (matrix_size (X_valid (dm_data D)) = 0 \<longrightarrow>
        select_split D ''train'' = Inr (X_train (dm_data D), Y_train (dm_data D)))
   \<and> (prepare_metadata_features_and_labels D ''train'' s0 r0 c0 ch0 =
         Inr (md, written_features, written_labels) \<longrightarrow>
        (\<exists>l. select_split D ''train'' = Inr (written_features, l)) \<and>
        sample_count md = shape0 written_features)
   \<and> (matrix_size (Dense c rs) \<noteq> 0 \<longleftrightarrow> rs \<noteq> [] \<and> c \<noteq> 0)
   \<and> matrix_size (Sparse c srs) = sum_list (map length srs)"
proof (intro conjI impI)
  assume h: "matrix_size (X_valid (dm_data D)) \<noteq> 0 \<and>
    is_sparse (X_train (dm_data D)) = is_sparse (X_valid (dm_data D)) \<and>
    shape1 (X_train (dm_data D)) = shape1 (X_valid (dm_data D)) \<and>
    np_concatenate (Y_train (dm_data D)) (Y_valid (dm_data D)) = Inr labels0"
  then obtain f where f: "concat_features (X_train (dm_data D)) (X_valid (dm_data D)) = Inr f"
      "matrix_rows f = matrix_rows (X_train (dm_data D)) @ matrix_rows (X_valid (dm_data D))"
      "is_sparse f = is_sparse (X_train (dm_data D))"
      "shape1 f = shape1 (X_train (dm_data D))"
      "shape0 f = shape0 (X_train (dm_data D)) + shape0 (X_valid (dm_data D))"
    using concat_features_same_kind by blast
  from h f(1) have "select_split D ''train'' = Inr (f, labels0)"
    by (simp add: select_split_train_merged)
  with f show "\<exists>features. select_split D ''train'' = Inr (features, labels0) \<and>
         matrix_rows features =
           matrix_rows (X_train (dm_data D)) @ matrix_rows (X_valid (dm_data D)) \<and>
         is_sparse features = is_sparse (X_train (dm_data D)) \<and>
         shape1 features = shape1 (X_train (dm_data D)) \<and>
         shape0 features = shape0 (X_train (dm_data D)) + shape0 (X_valid (dm_data D))"
    by blast
  from h show "(\<exists>u v. Y_train (dm_data D) = Vec u \<and> Y_valid (dm_data D) = Vec v \<and>
            labels0 = Vec (u @ v)) \<or>
       (\<exists>c r1 r2. Y_train (dm_data D) = Mat c r1 \<and> Y_valid (dm_data D) = Mat c r2 \<and>
            labels0 = Mat c (r1 @ r2))"
    using np_concatenate_Inr by blast
next
  assume "matrix_size (X_valid (dm_data D)) = 0"
  then show "select_split D ''train'' = Inr (X_train (dm_data D), Y_train (dm_data D))"
    by (rule select_split_train_alone)
next
  assume p: "prepare_metadata_features_and_labels D ''train'' s0 r0 c0 ch0 =
         Inr (md, written_features, written_labels)"
  then show "\<exists>l. select_split D ''train'' = Inr (written_features, l)"
    using prepare_features_of_split by blast
  from p show "sample_count md = shape0 written_features"
    using prepare_features_of_split by blast
next
  show "matrix_size (Dense c rs) \<noteq> 0 \<longleftrightarrow> rs \<noteq> [] \<and> c \<noteq> 0"
    by simp
next
  show "matrix_size (Sparse c srs) = sum_list (map length srs)"
    by simp
qed

lemma adult_train_prepared:
  "prepare_metadata_features_and_labels adult ''train'' None None None None =
     Inr (\<lparr>dataset_name = ''adult'', sample_count = 5, output_dim = 2, set_type = ''train'',
           sequence_size = 1, row_count = 1, col_count = 2, num_channels = 1\<rparr>,
          Dense 2 [[1, 2], [3, 4], [5, 6], [7, 8], [9, 10]],
          [[1, 0], [0, 1], [0, 1], [0, 1], [1, 0]])"
  by (simp add: prepare_metadata_features_and_labels_def select_split_def adult_def
      adult_data_def adult_info_def normalize_labels_def binary_to_multilabel_map
      resolve_shape_def)

theorem train_split_absorbs_validation_witness:
  "shape0 (X_train adult_data) = 3 \<and> shape0 (X_valid adult_data) = 2
   \<and> matrix_size (X_valid adult_data) = 4
   \<and> select_split adult ''train'' =
       Inr (Dense 2 [[1, 2], [3, 4], [5, 6], [7, 8], [9, 10]], Vec [0, 1, 1, 1, 0])
   \<and> select_split dexter ''train'' = Inr (X_train dexter_data, Y_train dexter_data)
   \<and> matrix_size (X_valid dexter_data) = 0"
proof -
  have a: "dm_data adult = adult_data" and d: "dm_data dexter = dexter_data"
    by (simp_all add: adult_def dexter_def)
  have h: "matrix_size (X_valid (dm_data adult)) \<noteq> 0 \<and>
    is_sparse (X_train (dm_data adult)) = is_sparse (X_valid (dm_data adult)) \<and>
    shape1 (X_train (dm_data adult)) = shape1 (X_valid (dm_data adult)) \<and>
    np_concatenate (Y_train (dm_data adult)) (Y_valid (dm_data adult)) =
      Inr (Vec [0, 1, 1, 1, 0])"
    by (simp add: a adult_data_def)
  have z: "matrix_size (X_valid (dm_data dexter)) = 0"
    by (simp add: d dexter_data_def)
  from train_split_absorbs_validation [of adult "Vec [0, 1, 1, 1, 0]" None None None None
      "\<lparr>dataset_name = ''adult'', sample_count = 5, output_dim = 2, set_type = ''train'',
           sequence_size = 1, row_count = 1, col_count = 2, num_channels = 1\<rparr>"
      "Dense 2 [[1, 2], [3, 4], [5, 6], [7, 8], [9, 10]]"
      "[[1, 0], [0, 1], [0, 1], [0, 1], [1, 0]]"] h adult_train_prepared
  have 1: "select_split adult ''train'' =
       Inr (Dense 2 [[1, 2], [3, 4], [5, 6], [7, 8], [9, 10]], Vec [0, 1, 1, 1, 0])"
    by auto
  from train_split_absorbs_validation [of dexter] z
  have 2: "select_split dexter ''train'' = Inr (X_train dexter_data, Y_train dexter_data)"
    by (simp add: d)
  from 1 2 z show ?thesis
    by (simp add: d adult_data_def)
qed

lemma dexter_info_of: "dm_info dexter = dexter_info"
  by (simp add: dexter_def)

lemma dexter_test_prepared:
  "prepare_metadata_features_and_labels dexter ''test'' None None None None =
     Inr (\<lparr>dataset_name = ''dexter'', sample_count = 1, output_dim = 2,
           set_type = ''test'', sequence_size = 1, row_count = 1, col_count = 3,
           num_channels = 1\<rparr>,
          Sparse 3 [[(1, 5)]], [[0, 1]])"
  by (simp add: prepare_metadata_features_and_labels_def select_split_def dexter_def
      dexter_data_def dexter_info_def normalize_labels_def binary_to_multilabel_map
      resolve_shape_def)

lemma dexter_train_prepared:
  "prepare_metadata_features_and_labels dexter ''train'' None None None None =
     Inr (\<lparr>dataset_name = ''dexter'', sample_count = 3, output_dim = 2,
           set_type = ''train'', sequence_size = 1, row_count = 1, col_count = 3,
           num_channels = 1\<rparr>,
          Sparse 3 [[(0, 1)], [(1, 2)], [(0, 4), (2, 3)]],
          [[1, 0], [0, 1], [0, 1]])"
  by (simp add: prepare_metadata_features_and_labels_def select_split_def dexter_def
      dexter_data_def dexter_info_def normalize_labels_def binary_to_multilabel_map
      resolve_shape_def)

text \<open>
  Claim C6. The validation rows are to follow the training rows in the train split
  whenever the validation matrix is not empty. The program misses this for a sparse
  validation matrix whose rows store no entry: with three training rows and two such
  validation rows of the same width (and their two labels), \<^verbatim>\<open>X_valid.size\<close> is 0,
  the train split is prepared from the three training rows alone, and the run writes
  three train examples and the sample count 3. On the dense path two validation rows
  of zeros are merged: five rows.
\<close>

theorem zero_valued_validation_rows_dropped:
  "is_sparse (X_valid dexter_data) \<and> shape0 (X_train dexter_data) = 3
   \<and> shape0 (X_valid dexter_data) = 2
   \<and> shape1 (X_valid dexter_data) = shape1 (X_train dexter_data)
   \<and> Y_valid dexter_data = Vec [1, 0]
   \<and> matrix_size (X_valid dexter_data) = 0
   \<and> prepare_metadata_features_and_labels dexter ''train'' None None None None =
       Inr (\<lparr>dataset_name = ''dexter'', sample_count = 3, output_dim = 2,
             set_type = ''train'', sequence_size = 1, row_count = 1, col_count = 3,
             num_channels = 1\<rparr>,
            Sparse 3 [[(0, 1)], [(1, 2)], [(0, 4), (2, 3)]],
            [[1, 0], [0, 1], [0, 1]])
   \<and> fst dexter_run = None
   \<and> map_option (map ex_id)
       (records_at (snd dexter_run)
          (record_filepath ''out/dexter.data'' ''dexter'' ''train'')) = Some [1, 2, 3]
   \<and> map_option tp_sample_count (metadata_at (snd dexter_run) ''out/dexter.data/train'') =
       Some 3
   \<and> select_split adult_zero_valid ''train'' =
       Inr (Dense 2 [[1, 2], [3, 4], [5, 6], [0, 0], [0, 0]], Vec [0, 1, 1, 1, 0])"
proof (intro conjI)
  show "prepare_metadata_features_and_labels dexter ''train'' None None None None =
       Inr (\<lparr>dataset_name = ''dexter'', sample_count = 3, output_dim = 2,
             set_type = ''train'', sequence_size = 1, row_count = 1, col_count = 3,
             num_channels = 1\<rparr>,
            Sparse 3 [[(0, 1)], [(1, 2)], [(0, 4), (2, 3)]],
            [[1, 0], [0, 1], [0, 1]])"
    by (rule dexter_train_prepared)
  show "fst dexter_run = None"
    by (simp add: dexter_run_def press_a_button_and_give_me_an_AutoDL_dataset_def
        format_split_def dexter_test_prepared dexter_train_prepared
        convert_vectors_to_sequence_example_def encode_example_def limit_reached_def
        dense_to_sparse_label_def csr_feature_vector_to_lists_def Let_def dexter_info_of
        dexter_info_def)
  show "map_option (map ex_id)
       (records_at (snd dexter_run)
          (record_filepath ''out/dexter.data'' ''dexter'' ''train'')) = Some [1, 2, 3]"
    by (simp add: dexter_run_def press_a_button_and_give_me_an_AutoDL_dataset_def
        format_split_def dexter_test_prepared dexter_train_prepared
        convert_vectors_to_sequence_example_def encode_example_def limit_reached_def
        dense_to_sparse_label_def csr_feature_vector_to_lists_def Let_def dexter_info_of
        dexter_info_def write_metadata_textproto_def records_at_def record_filepath_def)
  show "map_option tp_sample_count (metadata_at (snd dexter_run) ''out/dexter.data/train'') =
       Some 3"
    by (simp add: dexter_run_def press_a_button_and_give_me_an_AutoDL_dataset_def
        format_split_def dexter_test_prepared dexter_train_prepared
        convert_vectors_to_sequence_example_def encode_example_def limit_reached_def
        dense_to_sparse_label_def csr_feature_vector_to_lists_def Let_def dexter_info_of
        dexter_info_def write_metadata_textproto_def metadata_at_def record_filepath_def)
  show "select_split adult_zero_valid ''train'' =
       Inr (Dense 2 [[1, 2], [3, 4], [5, 6], [0, 0], [0, 0]], Vec [0, 1, 1, 1, 0])"
    by (simp add: select_split_def adult_zero_valid_def adult_data_def)
qed (simp_all add: dexter_data_def)

subsection \<open>Claims on the label normaliser\<close>

text \<open>
  Claim C4. Under the regression task a label vector becomes a two-column matrix with
  one row per label: the threshold is the median of the vector (at least half of the
  labels are not above it and at least half are not below it), column 1 says whether
  the label is greater than the threshold and column 0 is its complement, so a label
  equal to the median counts as not above. The labels 1, 2, 3, 4, 5 have median 3 and
  give the rows [1,0], [1,0], [1,0], [0,1], [0,1].
\<close>

theorem regression_binarized_at_median:
  "normalize_labels ''regression'' (Vec ys) =
     Inr (Mat 2 (regression_to_multilabel ys np_median))
   \<and> length (regression_to_multilabel ys np_median) = length ys
   \<and> map (\<lambda>r. r ! 1) (regression_to_multilabel ys np_median) =
       map (\<lambda>y. of_bool (y > np_median ys)) ys
   \<and> map (\<lambda>r. r ! 0) (regression_to_multilabel ys np_median) =
       map (\<lambda>y. of_bool (\<not> y > np_median ys)) ys
   \<and> regression_to_multilabel ys np_median =
       map (\<lambda>y. [of_bool (\<not> y > np_median ys), of_bool (y > np_median ys)]) ys
   \<and> length ys \<le> 2 * length (filter (\<lambda>y. y \<le> np_median ys) ys)
   \<and> length ys \<le> 2 * length (filter (\<lambda>y. np_median ys \<le> y) ys)
   \<and> np_median [1, 2, 3, 4, 5] = 3
   \<and> regression_to_multilabel [1, 2, 3, 4, 5] np_median =
       [[1, 0], [1, 0], [1, 0], [0, 1], [0, 1]]"
  using np_median_is_median [of ys]
  by (simp add: normalize_labels_def regression_to_multilabel_map np_median_example comp_def)

text \<open>
  Claim C5. Under the binary classification task a label vector becomes a two-column
  matrix with one row per label: column 1 is the vector itself and column 0 is one minus
  the vector. The labels 0, 1, 1, 0 give the rows [1,0], [0,1], [0,1], [1,0].
\<close>

theorem binary_expanded_to_two_columns:
  "normalize_labels ''binary.classification'' (Vec bs) =
     Inr (Mat 2 (binary_to_multilabel bs))
   \<and> length (binary_to_multilabel bs) = length bs
   \<and> map (\<lambda>r. r ! 1) (binary_to_multilabel bs) = bs
   \<and> map (\<lambda>r. r ! 0) (binary_to_multilabel bs) = map (\<lambda>b. 1 - b) bs
   \<and> binary_to_multilabel [0, 1, 1, 0] = [[1, 0], [0, 1], [0, 1], [1, 0]]"
  by (simp add: normalize_labels_def binary_to_multilabel_map comp_def)

text \<open>
  Claim C10. The normalised label matrix has one row per example, for binary and for
  regression labels. Every row has two entries that sum to 1. The row of a binary label
  0 is [1,0] and that of a binary label 1 is [0,1]; the row of a regression label is
  [0,1] when the label is above the median and [1,0] otherwise. So exactly one column
  is active in the row of each example: for binary labels when every label is 0 or 1,
  for regression labels always.
\<close>

theorem normalized_rows_one_hot:
  "length (binary_to_multilabel bs) = length bs
   \<and> (\<forall>i < length bs.
         length (binary_to_multilabel bs ! i) = 2 \<and>
         sum_list (binary_to_multilabel bs ! i) = 1 \<and>
         (bs ! i = 0 \<longrightarrow> binary_to_multilabel bs ! i = [1, 0]) \<and>
         (bs ! i = 1 \<longrightarrow> binary_to_multilabel bs ! i = [0, 1]))
   \<and> length (regression_to_multilabel ys np_median) = length ys
   \<and> (\<forall>i < length ys.
         length (regression_to_multilabel ys np_median ! i) = 2 \<and>
         sum_list (regression_to_multilabel ys np_median ! i) = 1 \<and>
         regression_to_multilabel ys np_median ! i =
           (if ys ! i > np_median ys then [0, 1] else [1, 0]))
   \<and> (set bs \<subseteq> {0, 1} \<longrightarrow>
        (\<forall>r \<in> set (binary_to_multilabel bs).
           length r = 2 \<and> sum_list r = 1 \<and> (r = [1, 0] \<or> r = [0, 1])))
   \<and> (\<forall>r \<in> set (regression_to_multilabel ys np_median).
         length r = 2 \<and> sum_list r = 1 \<and> (r = [1, 0] \<or> r = [0, 1]))"
proof (intro conjI)
  show "length (binary_to_multilabel bs) = length bs"
    by (simp add: binary_to_multilabel_map)
  show "\<forall>i < length bs.
         length (binary_to_multilabel bs ! i) = 2 \<and>
         sum_list (binary_to_multilabel bs ! i) = 1 \<and>
         (bs ! i = 0 \<longrightarrow> binary_to_multilabel bs ! i = [1, 0]) \<and>
         (bs ! i = 1 \<longrightarrow> binary_to_multilabel bs ! i = [0, 1])"
    by (simp add: binary_to_multilabel_map)
  show "length (regression_to_multilabel ys np_median) = length ys"
    by (simp add: regression_to_multilabel_map)
  show "\<forall>i < length ys.
         length (regression_to_multilabel ys np_median ! i) = 2 \<and>
         sum_list (regression_to_multilabel ys np_median ! i) = 1 \<and>
         regression_to_multilabel ys np_median ! i =
           (if ys ! i > np_median ys then [0, 1] else [1, 0])"
    by (simp add: regression_to_multilabel_map)
  show "set bs \<subseteq> {0, 1} \<longrightarrow>
        (\<forall>r \<in> set (binary_to_multilabel bs).
           length r = 2 \<and> sum_list r = 1 \<and> (r = [1, 0] \<or> r = [0, 1]))"
    by (auto simp: binary_to_multilabel_map)
  show "\<forall>r \<in> set (regression_to_multilabel ys np_median).
         length r = 2 \<and> sum_list r = 1 \<and> (r = [1, 0] \<or> r = [0, 1])"
    by (auto simp: regression_to_multilabel_map)
qed

theorem normalized_rows_one_hot_witness:
  "set [0, 1, 1, 0 :: real] \<subseteq> {0, 1}
   \<and> length (binary_to_multilabel [0, 1, 1, 0]) = 4
   \<and> binary_to_multilabel [0, 1, 1, 0] ! 0 = [1, 0]
   \<and> binary_to_multilabel [0, 1, 1, 0] ! 1 = [0, 1]
   \<and> sum_list (binary_to_multilabel [0, 1, 1, 0] ! 2) = 1
   \<and> [0, 1] \<in> set (binary_to_multilabel [0, 1, 1, 0])
   \<and> length (regression_to_multilabel [1, 2, 3, 4, 5] np_median) = 5
   \<and> regression_to_multilabel [1, 2, 3, 4, 5] np_median ! 2 = [1, 0]
   \<and> regression_to_multilabel [1, 2, 3, 4, 5] np_median ! 3 = [0, 1]
   \<and> [1, 0] \<in> set (regression_to_multilabel [1, 2, 3, 4, 5] np_median)"
proof -
  note T = normalized_rows_one_hot [of "[0, 1, 1, 0]" "[1, 2, 3, 4, 5]"]
  have b0: "[0, 1, 1, 0 :: real] ! 0 = 0" and b1: "[0, 1, 1, 0 :: real] ! 1 = 1"
    and y2: "\<not> [1, 2, 3, 4, 5 :: real] ! 2 > np_median [1, 2, 3, 4, 5]"
    and y3: "[1, 2, 3, 4, 5 :: real] ! 3 > np_median [1, 2, 3, 4, 5]"
    by (simp_all add: np_median_example)
  from T have len: "length (binary_to_multilabel [0, 1, 1, 0]) = 4"
    and rlen: "length (regression_to_multilabel [1, 2, 3, 4, 5] np_median) = 5"
    by simp_all
  from T b0 have r0: "binary_to_multilabel [0, 1, 1, 0] ! 0 = [1, 0]" by simp
  from T b1 have r1: "binary_to_multilabel [0, 1, 1, 0] ! 1 = [0, 1]" by simp
  from T have s2: "sum_list (binary_to_multilabel [0, 1, 1, 0] ! 2) = 1" by simp
  from T y2 have q2: "regression_to_multilabel [1, 2, 3, 4, 5] np_median ! 2 = [1, 0]"
    by simp
  from T y3 have q3: "regression_to_multilabel [1, 2, 3, 4, 5] np_median ! 3 = [0, 1]"
    by simp
  from len have "1 < length (binary_to_multilabel [0, 1, 1, 0])" by simp
  then have "binary_to_multilabel [0, 1, 1, 0] ! 1 \<in> set (binary_to_multilabel [0, 1, 1, 0])"
    by (rule nth_mem)
  with r1 have m1: "[0, 1] \<in> set (binary_to_multilabel [0, 1, 1, 0])" by simp
  from rlen have "2 < length (regression_to_multilabel [1, 2, 3, 4, 5] np_median)" by simp
  then have "regression_to_multilabel [1, 2, 3, 4, 5] np_median ! 2
      \<in> set (regression_to_multilabel [1, 2, 3, 4, 5] np_median)"
    by (rule nth_mem)
  with q2 have m2: "[1, 0] \<in> set (regression_to_multilabel [1, 2, 3, 4, 5] np_median)"
    by simp
  from len rlen r0 r1 s2 q2 q3 m1 m2 show ?thesis by simp
qed

subsection \<open>Properties of the write loop\<close>

lemma limit_reached_zero: "limit_reached (Some 0) c = limit_reached None c"
  by (simp add: limit_reached_def)

lemma write_loop_zero_limit:
  "write_loop t off s (Some 0) rows c = write_loop t off s None rows c"
  by (induction rows arbitrary: c) (auto simp: limit_reached_zero split: sum.splits)

lemma encode_example_id:
  "encode_example t off s c fr lr = Inr ex \<Longrightarrow> ex_id ex = int c + off"
  by (auto simp: encode_example_def Let_def
      split: feature_row.splits if_splits prod.splits sum.splits)

lemma write_loop_ids:
  "write_loop t off s m rows c = (err, c', written) \<Longrightarrow>
     map ex_id written = map (\<lambda>i. int i + off) [c..<c + length written] \<and>
     (err = None \<longrightarrow> c' = c + length written) \<and> length written \<le> length rows"
proof (induction rows arbitrary: c err c' written)
  case Nil
  then show ?case by simp
next
  case (Cons row rest)
  obtain fr lr where row: "row = (fr, lr)" by (cases row)
  show ?case
  proof (cases "encode_example t off s c fr lr")
    case (Inl e)
    with Cons.prems row show ?thesis by simp
  next
    case (Inr ex)
    then have idx: "ex_id ex = int c + off" by (rule encode_example_id)
    show ?thesis
    proof (cases "limit_reached m (c + 1)")
      case True
      with Cons.prems row Inr idx show ?thesis by (auto simp: upt_rec)
    next
      case False
      obtain e2 c2 w2 where rec: "write_loop t off s m rest (c + 1) = (e2, c2, w2)"
        by (cases "write_loop t off s m rest (c + 1)")
      from Cons.IH [OF rec] have ih: "map ex_id w2 = map (\<lambda>i. int i + off) [c + 1..<c + 1 + length w2]"
        "e2 = None \<longrightarrow> c2 = c + 1 + length w2" "length w2 \<le> length rest"
        by simp_all
      from Cons.prems row Inr False rec have res: "err = e2" "c' = c2" "written = ex # w2"
        by simp_all
      have "[c..<c + length (ex # w2)] = c # [c + 1..<c + 1 + length w2]"
        by (simp add: upt_rec)
      with ih idx res show ?thesis by simp
    qed
  qed
qed

lemma encode_rows_Cons:
  "encode_rows t off s ((fr, lr) # rest) c =
     encode_example t off s c fr lr # encode_rows t off s rest (Suc c)"
  by (simp add: encode_rows_def)

lemma write_loop_no_limit:
  "\<not> (\<exists>k. m = Some k \<and> k \<noteq> 0) \<Longrightarrow> encode_rows t off s rows c = map Inr exs \<Longrightarrow>
   write_loop t off s m rows c = (None, c + length rows, exs)"
proof (induction rows arbitrary: c exs)
  case Nil
  then show ?case by (simp add: encode_rows_def)
next
  case (Cons row rest)
  obtain fr lr where row: "row = (fr, lr)" by (cases row)
  from Cons.prems(2) row obtain ex exs' where exs: "exs = ex # exs'"
      "encode_example t off s c fr lr = Inr ex"
      "encode_rows t off s rest (Suc c) = map Inr exs'"
    by (cases exs) (auto simp: encode_rows_Cons)
  from Cons.prems(1) have nl: "\<not> limit_reached m (c + 1)"
    by (auto simp: limit_reached_def split: option.splits)
  from Cons.IH [OF Cons.prems(1) exs(3)] exs nl row show ?case by simp
qed

lemma write_loop_limit:
  "int c < k \<Longrightarrow> nat k - c \<le> length rows \<Longrightarrow>
   take (nat k - c) (encode_rows t off s rows c) = map Inr exs \<Longrightarrow>
   write_loop t off s (Some k) rows c = (None, nat k, exs)"
proof (induction rows arbitrary: c exs)
  case Nil
  then show ?case by simp
next
  case (Cons row rest)
  obtain fr lr where row: "row = (fr, lr)" by (cases row)
  from Cons.prems(1) obtain j where j: "nat k - c = Suc j"
    by (cases "nat k - c") auto
  from Cons.prems(3) row j obtain ex exs' where exs: "exs = ex # exs'"
      "encode_example t off s c fr lr = Inr ex"
      "take j (encode_rows t off s rest (Suc c)) = map Inr exs'"
    by (cases exs) (auto simp: encode_rows_Cons)
  show ?case
  proof (cases "limit_reached (Some k) (c + 1)")
    case True
    with Cons.prems(1) have k: "nat k = c + 1" and "j = 0"
      using j by (auto simp: limit_reached_def)
    with exs row True show ?thesis by simp
  next
    case False
    with Cons.prems(1) have lt: "int (Suc c) < k"
      by (auto simp: limit_reached_def)
    from j have j': "nat k - Suc c = j" by simp
    from Cons.prems(2) j have le: "nat k - Suc c \<le> length rest" by simp
    from Cons.IH [OF lt le] exs(3) j'
    have "write_loop t off s (Some k) rest (Suc c) = (None, nat k, exs')" by simp
    with exs row False show ?thesis by simp
  qed
qed

lemma encode_rows_dense_flat:
  "encode_rows t off 1 (zip (map Dense_row rs) labels) c =
     map Inr (map (\<lambda>(i, v, l).
       \<lparr>ex_id = int i + off,
        label_index = (if t then [] else fst (dense_to_sparse_label l)),
        label_score = (if t then [] else snd (dense_to_sparse_label l)),
        ex_feature_lists = Dense_input [v]\<rparr>) (enumerate c (zip rs labels)))"
  by (induction rs arbitrary: labels c; case_tac labels)
     (auto simp: encode_rows_def encode_example_def Let_def split: prod.splits)

lemma convert_loop_ok:
  assumes "write_loop (set_type md = ''test'')
             (if set_type md = ''test'' then 0 else info_test_num D_info)
             (sequence_size md) m (zip (matrix_rows features) labels) 0 = (None, n, exs)"
  shows "convert_vectors_to_sequence_example filepath md features labels D_info m fs =
     (None, write_metadata_textproto n md D_info filepath
        ((if set_type md = ''test''
          then fs((fst filepath, dataset_name md @ ''.solution'') \<mapsto> Solution_file labels)
          else fs)(filepath \<mapsto> Record_file exs)))"
  using assms by (simp add: convert_vectors_to_sequence_example_def Let_def)

lemma convert_loop_error:
  assumes "write_loop (set_type md = ''test'')
             (if set_type md = ''test'' then 0 else info_test_num D_info)
             (sequence_size md) m (zip (matrix_rows features) labels) 0 = (Some e, n, exs)"
  shows "convert_vectors_to_sequence_example filepath md features labels D_info m fs =
     (Some e,
        ((if set_type md = ''test''
          then fs((fst filepath, dataset_name md @ ''.solution'') \<mapsto> Solution_file labels)
          else fs)(filepath \<mapsto> Record_file exs)))"
  using assms by (simp add: convert_vectors_to_sequence_example_def Let_def)

lemma records_after_metadata:
  "snd filepath \<noteq> ''metadata.textproto'' \<Longrightarrow>
   records_at (write_metadata_textproto n md D_info filepath (fs(filepath \<mapsto> Record_file exs)))
     filepath = Some exs"
  by (cases filepath) (simp add: records_at_def write_metadata_textproto_def)

lemma metadata_after_write:
  "map_option tp_sample_count
     (metadata_at (write_metadata_textproto n md D_info filepath fs) (fst filepath)) = Some n"
  by (simp add: metadata_at_def write_metadata_textproto_def)

lemma convert_records:
  assumes "snd filepath \<noteq> ''metadata.textproto''"
    and "write_loop (set_type md = ''test'')
             (if set_type md = ''test'' then 0 else info_test_num D_info)
             (sequence_size md) m (zip (matrix_rows features) labels) 0 = (err, n, exs)"
  shows "records_at (snd (convert_vectors_to_sequence_example filepath md features labels
            D_info m fs)) filepath = Some exs"
proof (cases err)
  case None
  with assms(2) show ?thesis
    by (simp add: convert_loop_ok records_after_metadata [OF assms(1)])
next
  case (Some e)
  with assms(2) show ?thesis
    by (simp add: convert_loop_error records_at_def)
qed

lemma write_loop_first_row:
  "encode_example t off s c fr lr = Inr ex \<Longrightarrow>
   \<exists>err n w. write_loop t off s m ((fr, lr) # rest) c = (err, n, ex # w)"
  by (cases "write_loop t off s m rest (c + 1)") auto

lemma write_loop_sparse_sequence:
  "s \<noteq> 1 \<Longrightarrow> write_loop t off s m ((Csr_row v, lr) # rest) c = (Some NotImplementedError, c, [])"
  by (simp add: encode_example_def Let_def split: prod.splits)

lemma adult_test_rows_encoded:
  "encode_rows True 0 1 (zip (matrix_rows (X_test adult_data)) [[0, 1], [1, 0], [0, 1]]) 0 =
     map Inr
       [\<lparr>ex_id = 0, label_index = [], label_score = [],
          ex_feature_lists = Dense_input [[0, 1]]\<rparr>,
        \<lparr>ex_id = 1, label_index = [], label_score = [],
          ex_feature_lists = Dense_input [[1, 0]]\<rparr>,
        \<lparr>ex_id = 2, label_index = [], label_score = [],
          ex_feature_lists = Dense_input [[1, 1]]\<rparr>]"
  by (simp add: encode_rows_def encode_example_def adult_data_def)

subsection \<open>Claims on writing a split\<close>

lemma write_of_encodable_rows:
  assumes "snd filepath \<noteq> ''metadata.textproto''"
    and "rows = zip (matrix_rows features) labels"
    and "t = (set_type md = ''test'')"
    and "off = (if t then 0 else info_test_num D_info)"
  shows "(0 < k \<and> nat k < length rows \<and>
          take (nat k) (encode_rows t off (sequence_size md) rows 0) = map Inr first_exs \<longrightarrow>
            (\<exists>fs'. convert_vectors_to_sequence_example filepath md features labels D_info
                      (Some k) fs = (None, fs') \<and>
                records_at fs' filepath = Some first_exs \<and> length first_exs = nat k \<and>
                map_option tp_sample_count (metadata_at fs' (fst filepath)) = Some (nat k)))
       \<and> (encode_rows t off (sequence_size md) rows 0 = map Inr all_exs \<longrightarrow>
            (\<exists>fs'. convert_vectors_to_sequence_example filepath md features labels D_info
                      None fs = (None, fs') \<and>
                records_at fs' filepath = Some all_exs \<and> length all_exs = length rows \<and>
                map_option tp_sample_count (metadata_at fs' (fst filepath)) =
                  Some (length rows)))"
proof (intro conjI impI)
  assume h: "0 < k \<and> nat k < length rows \<and>
          take (nat k) (encode_rows t off (sequence_size md) rows 0) = map Inr first_exs"
  then have "write_loop t off (sequence_size md) (Some k) rows 0 = (None, nat k, first_exs)"
    using write_loop_limit [of 0 k rows t off "sequence_size md" first_exs] by simp
  then have loop: "write_loop (set_type md = ''test'')
             (if set_type md = ''test'' then 0 else info_test_num D_info)
             (sequence_size md) (Some k) (zip (matrix_rows features) labels) 0 =
               (None, nat k, first_exs)"
    using assms by simp
  have len: "length first_exs = nat k"
  proof -
    from h have "nat k < length rows" by simp
    then have "length (take (nat k) (encode_rows t off (sequence_size md) rows 0)) = nat k"
      by (simp add: encode_rows_def)
    moreover from h
    have "length (take (nat k) (encode_rows t off (sequence_size md) rows 0)) =
        length first_exs"
      by (metis length_map)
    ultimately show ?thesis by simp
  qed
  show "\<exists>fs'. convert_vectors_to_sequence_example filepath md features labels D_info
                      (Some k) fs = (None, fs') \<and>
                records_at fs' filepath = Some first_exs \<and> length first_exs = nat k \<and>
                map_option tp_sample_count (metadata_at fs' (fst filepath)) = Some (nat k)"
    using convert_loop_ok [OF loop, of filepath fs] records_after_metadata [OF assms(1)]
      metadata_after_write len
    by simp
next
  assume h: "encode_rows t off (sequence_size md) rows 0 = map Inr all_exs"
  then have "write_loop t off (sequence_size md) None rows 0 = (None, 0 + length rows, all_exs)"
    by (intro write_loop_no_limit) simp_all
  then have loop: "write_loop (set_type md = ''test'')
             (if set_type md = ''test'' then 0 else info_test_num D_info)
             (sequence_size md) None (zip (matrix_rows features) labels) 0 =
               (None, length rows, all_exs)"
    using assms by simp
  have len: "length all_exs = length rows"
  proof -
    have "length (encode_rows t off (sequence_size md) rows 0) = length rows"
      by (simp add: encode_rows_def)
    moreover from h
    have "length (encode_rows t off (sequence_size md) rows 0) = length all_exs"
      by (metis length_map)
    ultimately show ?thesis by simp
  qed
  show "\<exists>fs'. convert_vectors_to_sequence_example filepath md features labels D_info
                      None fs = (None, fs') \<and>
                records_at fs' filepath = Some all_exs \<and> length all_exs = length rows \<and>
                map_option tp_sample_count (metadata_at fs' (fst filepath)) =
                  Some (length rows)"
    using convert_loop_ok [OF loop, of filepath fs] records_after_metadata [OF assms(1)]
      metadata_after_write len
    by simp
qed

lemma dense_flat_rows_encode:
  assumes "\<not> is_sparse features"
  shows "\<exists>exs. encode_rows t off 1 (zip (matrix_rows features) labels) 0 = map Inr exs"
proof -
  from assms obtain c rs where f: "features = Dense c rs" by (cases features) auto
  have "\<exists>exs. encode_rows t off 1 (zip (map Dense_row rs) labels) 0 = map Inr exs"
    using encode_rows_dense_flat [of t off rs labels 0] by (rule exI)
  with f show ?thesis by simp
qed

text \<open>
  Claim C3, amended. The rows of a write are the pairs of a feature row and a label row,
  and the record file is not named \<^verbatim>\<open>metadata.textproto\<close>. With a limit \<open>k\<close> of at
  least 1 and less than the number of rows, when the first \<open>k\<close> rows are encoded
  without error the write succeeds, the record file holds exactly the examples of these
  \<open>k\<close> rows in the order of the matrix, and the sample count of the metadata file is
  \<open>k\<close>. With no limit, when every row is encoded without error, the record file holds
  the examples of all rows and the sample count is the number of rows. Every row of
  dense features with sequence size 1 is encoded without error, so for them both hold
  with no further condition.
\<close>

theorem truncation_emits_first_rows:
  assumes "snd filepath \<noteq> ''metadata.textproto''"
    and "rows = zip (matrix_rows features) labels"
    and "t = (set_type md = ''test'')"
    and "off = (if t then 0 else info_test_num D_info)"
  shows "(0 < k \<and> nat k < length rows \<and>
          take (nat k) (encode_rows t off (sequence_size md) rows 0) = map Inr first_exs \<longrightarrow>
            (\<exists>fs'. convert_vectors_to_sequence_example filepath md features labels D_info
                      (Some k) fs = (None, fs') \<and>
                records_at fs' filepath = Some first_exs \<and> length first_exs = nat k \<and>
                map_option tp_sample_count (metadata_at fs' (fst filepath)) = Some (nat k)))
       \<and> (encode_rows t off (sequence_size md) rows 0 = map Inr all_exs \<longrightarrow>
            (\<exists>fs'. convert_vectors_to_sequence_example filepath md features labels D_info
                      None fs = (None, fs') \<and>
                records_at fs' filepath = Some all_exs \<and> length all_exs = length rows \<and>
                map_option tp_sample_count (metadata_at fs' (fst filepath)) =
                  Some (length rows)))
       \<and> (\<not> is_sparse features \<and> sequence_size md = 1 \<longrightarrow>
            (\<exists>exs. encode_rows t off (sequence_size md) rows 0 = map Inr exs \<and>
               (0 < k \<and> nat k < length rows \<longrightarrow>
                  (\<exists>fs'. convert_vectors_to_sequence_example filepath md features labels
                            D_info (Some k) fs = (None, fs') \<and>
                      records_at fs' filepath = Some (take (nat k) exs) \<and>
                      length (take (nat k) exs) = nat k \<and>
                      map_option tp_sample_count (metadata_at fs' (fst filepath)) =
                        Some (nat k))) \<and>
               (\<exists>fs'. convert_vectors_to_sequence_example filepath md features labels
                         D_info None fs = (None, fs') \<and>
                   records_at fs' filepath = Some exs \<and> length exs = length rows \<and>
                   map_option tp_sample_count (metadata_at fs' (fst filepath)) =
                     Some (length rows))))"
proof (intro conjI impI)
  assume "0 < k \<and> nat k < length rows \<and>
          take (nat k) (encode_rows t off (sequence_size md) rows 0) = map Inr first_exs"
  then show "\<exists>fs'. convert_vectors_to_sequence_example filepath md features labels D_info
                      (Some k) fs = (None, fs') \<and>
                records_at fs' filepath = Some first_exs \<and> length first_exs = nat k \<and>
                map_option tp_sample_count (metadata_at fs' (fst filepath)) = Some (nat k)"
    using write_of_encodable_rows [OF assms] by blast
next
  assume "encode_rows t off (sequence_size md) rows 0 = map Inr all_exs"
  then show "\<exists>fs'. convert_vectors_to_sequence_example filepath md features labels D_info
                      None fs = (None, fs') \<and>
                records_at fs' filepath = Some all_exs \<and> length all_exs = length rows \<and>
                map_option tp_sample_count (metadata_at fs' (fst filepath)) =
                  Some (length rows)"
    using write_of_encodable_rows [OF assms] by blast
next
  assume d: "\<not> is_sparse features \<and> sequence_size md = 1"
  then obtain exs where e: "encode_rows t off (sequence_size md) rows 0 = map Inr exs"
    using dense_flat_rows_encode [of features t off labels] assms(2) by auto
  have lim: "0 < k \<and> nat k < length rows \<longrightarrow>
      (\<exists>fs'. convert_vectors_to_sequence_example filepath md features labels
                            D_info (Some k) fs = (None, fs') \<and>
                      records_at fs' filepath = Some (take (nat k) exs) \<and>
                      length (take (nat k) exs) = nat k \<and>
                      map_option tp_sample_count (metadata_at fs' (fst filepath)) =
                        Some (nat k))"
  proof
    assume k: "0 < k \<and> nat k < length rows"
    from e have "take (nat k) (encode_rows t off (sequence_size md) rows 0) =
        map Inr (take (nat k) exs)"
      by (simp add: take_map)
    with k show "\<exists>fs'. convert_vectors_to_sequence_example filepath md features labels
                            D_info (Some k) fs = (None, fs') \<and>
                      records_at fs' filepath = Some (take (nat k) exs) \<and>
                      length (take (nat k) exs) = nat k \<and>
                      map_option tp_sample_count (metadata_at fs' (fst filepath)) =
                        Some (nat k)"
      using write_of_encodable_rows [OF assms, of k "take (nat k) exs"] by blast
  qed
  from e have all: "\<exists>fs'. convert_vectors_to_sequence_example filepath md features labels
                         D_info None fs = (None, fs') \<and>
                   records_at fs' filepath = Some exs \<and> length exs = length rows \<and>
                   map_option tp_sample_count (metadata_at fs' (fst filepath)) =
                     Some (length rows)"
    using write_of_encodable_rows [OF assms] by blast
  from e lim all
  show "\<exists>exs. encode_rows t off (sequence_size md) rows 0 = map Inr exs \<and>
               (0 < k \<and> nat k < length rows \<longrightarrow>
                  (\<exists>fs'. convert_vectors_to_sequence_example filepath md features labels
                            D_info (Some k) fs = (None, fs') \<and>
                      records_at fs' filepath = Some (take (nat k) exs) \<and>
                      length (take (nat k) exs) = nat k \<and>
                      map_option tp_sample_count (metadata_at fs' (fst filepath)) =
                        Some (nat k))) \<and>
               (\<exists>fs'. convert_vectors_to_sequence_example filepath md features labels
                         D_info None fs = (None, fs') \<and>
                   records_at fs' filepath = Some exs \<and> length exs = length rows \<and>
                   map_option tp_sample_count (metadata_at fs' (fst filepath)) =
                     Some (length rows))"
    by blast
qed

theorem truncation_emits_first_rows_witness:
  "fst (convert_vectors_to_sequence_example (''out/test'', ''sample-adult-test.tfrecord'')
          adult_test_metadata (X_test adult_data) [[0, 1], [1, 0], [0, 1]] adult_info
          (Some 2) Map.empty) = None
   \<and> map_option (map ex_id)
       (records_at (snd (convert_vectors_to_sequence_example
          (''out/test'', ''sample-adult-test.tfrecord'')
          adult_test_metadata (X_test adult_data) [[0, 1], [1, 0], [0, 1]] adult_info
          (Some 2) Map.empty)) (''out/test'', ''sample-adult-test.tfrecord'')) = Some [0, 1]
   \<and> map_option tp_sample_count
       (metadata_at (snd (convert_vectors_to_sequence_example
          (''out/test'', ''sample-adult-test.tfrecord'')
          adult_test_metadata (X_test adult_data) [[0, 1], [1, 0], [0, 1]] adult_info
          (Some 2) Map.empty)) ''out/test'') = Some 2
   \<and> map_option (map ex_id)
       (records_at (snd (convert_vectors_to_sequence_example
          (''out/test'', ''sample-adult-test.tfrecord'')
          adult_test_metadata (X_test adult_data) [[0, 1], [1, 0], [0, 1]] adult_info
          None Map.empty)) (''out/test'', ''sample-adult-test.tfrecord'')) = Some [0, 1, 2]
   \<and> map_option tp_sample_count
       (metadata_at (snd (convert_vectors_to_sequence_example
          (''out/test'', ''sample-adult-test.tfrecord'')
          adult_test_metadata (X_test adult_data) [[0, 1], [1, 0], [0, 1]] adult_info
          None Map.empty)) ''out/test'') = Some 3"
proof -
  have p: "snd (''out/test'', ''sample-adult-test.tfrecord'') \<noteq> ''metadata.textproto''"
    by simp
  have t: "True = (set_type adult_test_metadata = ''test'')"
    by (simp add: adult_test_metadata_def)
  have s: "sequence_size adult_test_metadata = 1"
    by (simp add: adult_test_metadata_def)
  have n: "length (zip (matrix_rows (X_test adult_data)) [[0, 1], [1, 0], [0, 1 :: real]]) = 3"
    by (simp add: adult_data_def)
  note T = truncation_emits_first_rows [where filepath = "(''out/test'', ''sample-adult-test.tfrecord'')"
      and rows = "zip (matrix_rows (X_test adult_data)) [[0, 1], [1, 0], [0, 1]]"
      and features = "X_test adult_data" and labels = "[[0, 1], [1, 0], [0, 1]]"
      and t = True and md = adult_test_metadata and off = 0 and D_info = adult_info
      and k = 2 and fs = Map.empty
      and first_exs = "[\<lparr>ex_id = 0, label_index = [], label_score = [],
          ex_feature_lists = Dense_input [[0, 1]]\<rparr>,
        \<lparr>ex_id = 1, label_index = [], label_score = [],
          ex_feature_lists = Dense_input [[1, 0]]\<rparr>]"
      and all_exs = "[\<lparr>ex_id = 0, label_index = [], label_score = [],
          ex_feature_lists = Dense_input [[0, 1]]\<rparr>,
        \<lparr>ex_id = 1, label_index = [], label_score = [],
          ex_feature_lists = Dense_input [[1, 0]]\<rparr>,
        \<lparr>ex_id = 2, label_index = [], label_score = [],
          ex_feature_lists = Dense_input [[1, 1]]\<rparr>]", OF p refl t]
  from T show ?thesis
    by (auto simp: s n adult_test_rows_encoded)
qed

text \<open>
  Claim C3 as stated fails for the limit 0, which is less than the number of rows of a
  matrix of three rows: three examples are written and the sample count is 3.
\<close>

theorem limit_zero_emits_every_row:
  "shape0 (X_test adult_data) = 3
   \<and> fst (convert_vectors_to_sequence_example (''out/test'', ''sample-adult-test.tfrecord'')
          adult_test_metadata (X_test adult_data) [[0, 1], [1, 0], [0, 1]] adult_info
          (Some 0) Map.empty) = None
   \<and> map_option length
       (records_at (snd (convert_vectors_to_sequence_example
          (''out/test'', ''sample-adult-test.tfrecord'')
          adult_test_metadata (X_test adult_data) [[0, 1], [1, 0], [0, 1]] adult_info
          (Some 0) Map.empty)) (''out/test'', ''sample-adult-test.tfrecord'')) = Some 3
   \<and> map_option tp_sample_count
       (metadata_at (snd (convert_vectors_to_sequence_example
          (''out/test'', ''sample-adult-test.tfrecord'')
          adult_test_metadata (X_test adult_data) [[0, 1], [1, 0], [0, 1]] adult_info
          (Some 0) Map.empty)) ''out/test'') = Some 3"
  by (simp add: convert_vectors_to_sequence_example_def adult_test_metadata_def
      adult_data_def adult_info_def encode_example_def limit_reached_def
      write_metadata_textproto_def records_at_def metadata_at_def)

text \<open>
  Claim C9. The limit 0 gives the run of no limit: the same result and the same files;
  when every row can be encoded the write succeeds and the record file holds the
  examples of all rows. Whatever the limit is, when the first row can be encoded its
  example is in the record file, so no limit asks for zero records.
\<close>

theorem zero_limit_is_no_limit:
  "convert_vectors_to_sequence_example filepath md features labels D_info (Some 0) fs =
     convert_vectors_to_sequence_example filepath md features labels D_info None fs
   \<and> (snd filepath \<noteq> ''metadata.textproto'' \<and>
       encode_rows (set_type md = ''test'')
         (if set_type md = ''test'' then 0 else info_test_num D_info) (sequence_size md)
         (zip (matrix_rows features) labels) 0 = map Inr all_exs \<longrightarrow>
         fst (convert_vectors_to_sequence_example filepath md features labels D_info
                (Some 0) fs) = None \<and>
         records_at (snd (convert_vectors_to_sequence_example filepath md features labels
                            D_info (Some 0) fs)) filepath = Some all_exs \<and>
         length all_exs = length (zip (matrix_rows features) labels))
   \<and> (snd filepath \<noteq> ''metadata.textproto'' \<and>
       zip (matrix_rows features) labels = (feature_row, label_row) # rest \<and>
       encode_example (set_type md = ''test'')
         (if set_type md = ''test'' then 0 else info_test_num D_info) (sequence_size md)
         0 feature_row label_row = Inr ex \<longrightarrow>
         (\<exists>more. records_at (snd (convert_vectors_to_sequence_example filepath md features
                     labels D_info any_limit fs)) filepath = Some (ex # more)))"
proof (intro conjI impI)
  show "convert_vectors_to_sequence_example filepath md features labels D_info (Some 0) fs =
     convert_vectors_to_sequence_example filepath md features labels D_info None fs"
    by (simp add: convert_vectors_to_sequence_example_def write_loop_zero_limit)
next
  assume h: "snd filepath \<noteq> ''metadata.textproto'' \<and>
       encode_rows (set_type md = ''test'')
         (if set_type md = ''test'' then 0 else info_test_num D_info) (sequence_size md)
         (zip (matrix_rows features) labels) 0 = map Inr all_exs"
  then have loop: "write_loop (set_type md = ''test'')
         (if set_type md = ''test'' then 0 else info_test_num D_info) (sequence_size md)
         (Some 0) (zip (matrix_rows features) labels) 0 =
           (None, 0 + length (zip (matrix_rows features) labels), all_exs)"
    by (intro write_loop_no_limit) simp_all
  from convert_loop_ok [OF loop]
  show "fst (convert_vectors_to_sequence_example filepath md features labels D_info
                (Some 0) fs) = None"
    by simp
  from h convert_records [OF _ loop]
  show "records_at (snd (convert_vectors_to_sequence_example filepath md features labels
                            D_info (Some 0) fs)) filepath = Some all_exs"
    by simp
  have "length (encode_rows (set_type md = ''test'')
         (if set_type md = ''test'' then 0 else info_test_num D_info) (sequence_size md)
         (zip (matrix_rows features) labels) 0) = length (zip (matrix_rows features) labels)"
    by (simp add: encode_rows_def)
  moreover from h have "length (encode_rows (set_type md = ''test'')
         (if set_type md = ''test'' then 0 else info_test_num D_info) (sequence_size md)
         (zip (matrix_rows features) labels) 0) = length all_exs"
    by (metis length_map)
  ultimately show "length all_exs = length (zip (matrix_rows features) labels)"
    by simp
next
  assume h: "snd filepath \<noteq> ''metadata.textproto'' \<and>
       zip (matrix_rows features) labels = (feature_row, label_row) # rest \<and>
       encode_example (set_type md = ''test'')
         (if set_type md = ''test'' then 0 else info_test_num D_info) (sequence_size md)
         0 feature_row label_row = Inr ex"
  then obtain err n w where "write_loop (set_type md = ''test'')
         (if set_type md = ''test'' then 0 else info_test_num D_info) (sequence_size md)
         any_limit ((feature_row, label_row) # rest) 0 = (err, n, ex # w)"
    using write_loop_first_row by blast
  with h have "write_loop (set_type md = ''test'')
         (if set_type md = ''test'' then 0 else info_test_num D_info) (sequence_size md)
         any_limit (zip (matrix_rows features) labels) 0 = (err, n, ex # w)"
    by simp
  from convert_records [OF _ this] h
  show "\<exists>more. records_at (snd (convert_vectors_to_sequence_example filepath md features
                     labels D_info any_limit fs)) filepath = Some (ex # more)"
    by blast
qed

theorem zero_limit_is_no_limit_witness:
  "convert_vectors_to_sequence_example (''out/test'', ''sample-adult-test.tfrecord'')
     adult_test_metadata (X_test adult_data) [[0, 1], [1, 0], [0, 1]] adult_info
     (Some 0) Map.empty =
   convert_vectors_to_sequence_example (''out/test'', ''sample-adult-test.tfrecord'')
     adult_test_metadata (X_test adult_data) [[0, 1], [1, 0], [0, 1]] adult_info
     None Map.empty
   \<and> records_at (snd (convert_vectors_to_sequence_example
          (''out/test'', ''sample-adult-test.tfrecord'')
          adult_test_metadata (X_test adult_data) [[0, 1], [1, 0], [0, 1]] adult_info
          (Some 0) Map.empty)) (''out/test'', ''sample-adult-test.tfrecord'') =
       Some [\<lparr>ex_id = 0, label_index = [], label_score = [],
               ex_feature_lists = Dense_input [[0, 1]]\<rparr>,
             \<lparr>ex_id = 1, label_index = [], label_score = [],
               ex_feature_lists = Dense_input [[1, 0]]\<rparr>,
             \<lparr>ex_id = 2, label_index = [], label_score = [],
               ex_feature_lists = Dense_input [[1, 1]]\<rparr>]
   \<and> map_option hd (records_at (snd (convert_vectors_to_sequence_example
          (''out/test'', ''sample-adult-test.tfrecord'')
          adult_test_metadata (X_test adult_data) [[0, 1], [1, 0], [0, 1]] adult_info
          (Some (- 1)) Map.empty)) (''out/test'', ''sample-adult-test.tfrecord'')) =
       Some \<lparr>ex_id = 0, label_index = [], label_score = [],
              ex_feature_lists = Dense_input [[0, 1]]\<rparr>"
proof -
  have t: "(set_type adult_test_metadata = ''test'') = True"
    and s: "sequence_size adult_test_metadata = 1"
    by (simp_all add: adult_test_metadata_def)
  have z: "zip (matrix_rows (X_test adult_data)) [[0, 1], [1, 0], [0, 1 :: real]] =
      (Dense_row [0, 1], [0, 1]) # [(Dense_row [1, 0], [1, 0]), (Dense_row [1, 1], [0, 1])]"
    by (simp add: adult_data_def)
  have e: "encode_example True 0 1 0 (Dense_row [0, 1]) [0, 1] =
      Inr \<lparr>ex_id = 0, label_index = [], label_score = [],
            ex_feature_lists = Dense_input [[0, 1]]\<rparr>"
    by (simp add: encode_example_def)
  note T = zero_limit_is_no_limit [where filepath = "(''out/test'', ''sample-adult-test.tfrecord'')"
      and features = "X_test adult_data" and labels = "[[0, 1], [1, 0], [0, 1]]"
      and md = adult_test_metadata and D_info = adult_info and fs = Map.empty
      and all_exs = "[\<lparr>ex_id = 0, label_index = [], label_score = [],
          ex_feature_lists = Dense_input [[0, 1]]\<rparr>,
        \<lparr>ex_id = 1, label_index = [], label_score = [],
          ex_feature_lists = Dense_input [[1, 0]]\<rparr>,
        \<lparr>ex_id = 2, label_index = [], label_score = [],
          ex_feature_lists = Dense_input [[1, 1]]\<rparr>]"
      and feature_row = "Dense_row [0, 1]" and label_row = "[0, 1]"
      and rest = "[(Dense_row [1, 0], [1, 0]), (Dense_row [1, 1], [0, 1])]"
      and ex = "\<lparr>ex_id = 0, label_index = [], label_score = [],
          ex_feature_lists = Dense_input [[0, 1]]\<rparr>"
      and any_limit = "Some (- 1)"]
  from T show ?thesis
    using adult_test_rows_encoded z e by (auto simp: t s)
qed

text \<open>
  Claim C2, amended. When the features are sparse and the sequence size is not 1, a
  write with at least one pair of a feature row and a label row fails with
  \<^verbatim>\<open>NotImplementedError\<close> at the first row: no example is written and no metadata
  file, but the record file has been created and, for the test split, the solution file
  has been saved. A write with no row succeeds and writes the metadata file with the
  sample count 0.
\<close>

theorem sparse_sequence_rejected_at_first_row:
  "is_sparse features \<and> sequence_size md \<noteq> 1 \<longrightarrow>
     (matrix_rows features \<noteq> [] \<and> labels \<noteq> [] \<longrightarrow>
        convert_vectors_to_sequence_example filepath md features labels D_info m fs =
          (Some NotImplementedError,
           (if set_type md = ''test''
            then fs((fst filepath, dataset_name md @ ''.solution'') \<mapsto> Solution_file labels)
            else fs)(filepath \<mapsto> Record_file [])))
     \<and> (matrix_rows features = [] \<or> labels = [] \<longrightarrow>
        convert_vectors_to_sequence_example filepath md features labels D_info m fs =
          (None, write_metadata_textproto 0 md D_info filepath
             ((if set_type md = ''test''
               then fs((fst filepath, dataset_name md @ ''.solution'') \<mapsto>
                       Solution_file labels)
               else fs)(filepath \<mapsto> Record_file []))))"
proof (intro conjI impI)
  assume sp: "is_sparse features \<and> sequence_size md \<noteq> 1"
    and ne: "matrix_rows features \<noteq> [] \<and> labels \<noteq> []"
  from sp obtain c rs where f: "features = Sparse c rs" by (cases features) auto
  with ne obtain v rs' where rs: "rs = v # rs'" by (cases rs) auto
  from ne obtain lr ls where l: "labels = lr # ls" by (cases labels) auto
  have "write_loop (set_type md = ''test'')
             (if set_type md = ''test'' then 0 else info_test_num D_info)
             (sequence_size md) m (zip (matrix_rows features) labels) 0 =
               (Some NotImplementedError, 0, [])"
    using sp by (simp add: f rs l write_loop_sparse_sequence del: write_loop.simps)
  then show "convert_vectors_to_sequence_example filepath md features labels D_info m fs =
          (Some NotImplementedError,
           (if set_type md = ''test''
            then fs((fst filepath, dataset_name md @ ''.solution'') \<mapsto> Solution_file labels)
            else fs)(filepath \<mapsto> Record_file []))"
    by (rule convert_loop_error)
next
  assume "matrix_rows features = [] \<or> labels = []"
  then have z: "zip (matrix_rows features) labels = []" by auto
  have "write_loop (set_type md = ''test'')
             (if set_type md = ''test'' then 0 else info_test_num D_info)
             (sequence_size md) m (zip (matrix_rows features) labels) 0 = (None, 0, [])"
    unfolding z by simp
  then show "convert_vectors_to_sequence_example filepath md features labels D_info m fs =
          (None, write_metadata_textproto 0 md D_info filepath
             ((if set_type md = ''test''
               then fs((fst filepath, dataset_name md @ ''.solution'') \<mapsto>
                       Solution_file labels)
               else fs)(filepath \<mapsto> Record_file [])))"
    by (rule convert_loop_ok)
qed

theorem sparse_sequence_rejected_at_first_row_witness:
  "is_sparse (X_test dexter_data) \<and> sequence_size dexter_test_metadata = 2
   \<and> fst (convert_vectors_to_sequence_example (''out/test'', ''sample-dexter-test.tfrecord'')
          dexter_test_metadata (X_test dexter_data) [[0, 1]] dexter_info None Map.empty) =
       Some NotImplementedError
   \<and> records_at (snd (convert_vectors_to_sequence_example
          (''out/test'', ''sample-dexter-test.tfrecord'')
          dexter_test_metadata (X_test dexter_data) [[0, 1]] dexter_info None Map.empty))
        (''out/test'', ''sample-dexter-test.tfrecord'') = Some []
   \<and> metadata_at (snd (convert_vectors_to_sequence_example
          (''out/test'', ''sample-dexter-test.tfrecord'')
          dexter_test_metadata (X_test dexter_data) [[0, 1]] dexter_info None Map.empty))
        ''out/test'' = None
   \<and> fst (convert_vectors_to_sequence_example (''out/test'', ''sample-dexter-test.tfrecord'')
          dexter_test_metadata (Sparse 3 []) [] dexter_info None Map.empty) = None"
proof -
  have h: "is_sparse (X_test dexter_data) \<and> sequence_size dexter_test_metadata \<noteq> 1"
    and h0: "is_sparse (Sparse 3 []) \<and> sequence_size dexter_test_metadata \<noteq> 1"
    and ne: "matrix_rows (X_test dexter_data) \<noteq> [] \<and> [[0, 1 :: real]] \<noteq> []"
    by (simp_all add: dexter_data_def dexter_test_metadata_def)
  note A = sparse_sequence_rejected_at_first_row [where features = "X_test dexter_data"
      and md = dexter_test_metadata and labels = "[[0, 1]]" and D_info = dexter_info
      and m = None and fs = Map.empty
      and filepath = "(''out/test'', ''sample-dexter-test.tfrecord'')"]
  note B = sparse_sequence_rejected_at_first_row [where features = "Sparse 3 []"
      and md = dexter_test_metadata and labels = "[]" and D_info = dexter_info
      and m = None and fs = Map.empty
      and filepath = "(''out/test'', ''sample-dexter-test.tfrecord'')"]
  from A h ne have a: "convert_vectors_to_sequence_example
        (''out/test'', ''sample-dexter-test.tfrecord'')
        dexter_test_metadata (X_test dexter_data) [[0, 1]] dexter_info None Map.empty =
      (Some NotImplementedError,
       (if set_type dexter_test_metadata = ''test''
        then Map.empty((fst (''out/test'', ''sample-dexter-test.tfrecord''),
               dataset_name dexter_test_metadata @ ''.solution'') \<mapsto>
                 Solution_file [[0, 1]])
        else Map.empty)((''out/test'', ''sample-dexter-test.tfrecord'') \<mapsto> Record_file []))"
    by blast
  from B h0 have b: "fst (convert_vectors_to_sequence_example
        (''out/test'', ''sample-dexter-test.tfrecord'')
        dexter_test_metadata (Sparse 3 []) [] dexter_info None Map.empty) = None"
    by simp
  from a b show ?thesis
    by (simp add: records_at_def metadata_at_def dexter_test_metadata_def dexter_data_def)
qed

text \<open>
  Claim C2 as stated fails on a sparse test split of one row with sequence size 2: when
  the error is raised the solution file and the empty record file exist. On a sparse
  matrix without rows no error is raised at all.
\<close>

theorem files_written_before_sparse_rejection:
  "is_sparse (X_test dexter_data) \<and> sequence_size dexter_test_metadata \<noteq> 1
   \<and> fst (convert_vectors_to_sequence_example (''out/test'', ''sample-dexter-test.tfrecord'')
          dexter_test_metadata (X_test dexter_data) [[0, 1]] dexter_info None Map.empty) =
       Some NotImplementedError
   \<and> snd (convert_vectors_to_sequence_example (''out/test'', ''sample-dexter-test.tfrecord'')
          dexter_test_metadata (X_test dexter_data) [[0, 1]] dexter_info None Map.empty)
        (''out/test'', ''dexter.solution'') = Some (Solution_file [[0, 1]])
   \<and> snd (convert_vectors_to_sequence_example (''out/test'', ''sample-dexter-test.tfrecord'')
          dexter_test_metadata (X_test dexter_data) [[0, 1]] dexter_info None Map.empty)
        (''out/test'', ''sample-dexter-test.tfrecord'') = Some (Record_file [])
   \<and> is_sparse (Sparse 3 [])
   \<and> fst (convert_vectors_to_sequence_example (''out/test'', ''sample-dexter-test.tfrecord'')
          dexter_test_metadata (Sparse 3 []) [] dexter_info None Map.empty) = None"
  by (simp add: convert_vectors_to_sequence_example_def dexter_test_metadata_def
      dexter_data_def dexter_info_def encode_example_def write_metadata_textproto_def)

subsection \<open>Identifiers across the two splits\<close>

lemma prepare_set_type:
  "prepare_metadata_features_and_labels D st s0 r0 c0 ch0 = Inr (md, features, labels) \<Longrightarrow>
   set_type md = st"
  by (auto simp: prepare_metadata_features_and_labels_def
      split: sum.splits prod.splits label_array.splits)

lemma prepare_test_features:
  "prepare_metadata_features_and_labels D ''test'' s0 r0 c0 ch0 = Inr (md, features, labels) \<Longrightarrow>
   features = X_test (dm_data D)"
  using prepare_features_of_split [of D "''test''" s0 r0 c0 ch0 md features labels]
  by (auto simp: select_split_def)

lemma record_filepath_name: "snd (record_filepath dir name st) \<noteq> ''metadata.textproto''"
  by (simp add: record_filepath_def)

lemma record_filepath_dirs:
  "fst (record_filepath dir name ''test'') \<noteq> fst (record_filepath dir name ''train'')"
  by (simp add: record_filepath_def)

lemma convert_other_directory:
  "fst p \<noteq> fst filepath \<Longrightarrow>
   snd (convert_vectors_to_sequence_example filepath md features labels D_info m fs) p = fs p"
  by (cases p; cases filepath)
     (auto simp: convert_vectors_to_sequence_example_def write_metadata_textproto_def Let_def
       split: prod.splits option.splits)

lemma convert_error_of_loop:
  "write_loop (set_type md = ''test'')
     (if set_type md = ''test'' then 0 else info_test_num D_info)
     (sequence_size md) m (zip (matrix_rows features) labels) 0 = (err, n, exs) \<Longrightarrow>
   fst (convert_vectors_to_sequence_example filepath md features labels D_info m fs) = err"
  by (cases err) (simp_all add: convert_loop_ok convert_loop_error)

lemma format_split_written:
  assumes "format_split D name dir st s0 r0 c0 ch0 m fs = (None, fs')"
  shows "\<exists>exs. records_at fs' (record_filepath dir name st) = Some exs \<and>
           map ex_id exs =
             map (\<lambda>i. int i + (if st = ''test'' then 0 else info_test_num (dm_info D)))
               [0..<length exs] \<and>
           (st = ''test'' \<longrightarrow> length exs \<le> shape0 (X_test (dm_data D))) \<and>
           (\<forall>p. fst p \<noteq> fst (record_filepath dir name st) \<longrightarrow> fs' p = fs p)"
proof -
  from assms obtain md features labels where
    prep: "prepare_metadata_features_and_labels D st s0 r0 c0 ch0 = Inr (md, features, labels)"
    and conv: "convert_vectors_to_sequence_example (record_filepath dir name st) md features
                 labels (dm_info D) m fs = (None, fs')"
    by (auto simp: format_split_def split: sum.splits prod.splits)
  from prep have st: "set_type md = st" by (rule prepare_set_type)
  obtain err n exs where loop: "write_loop (set_type md = ''test'')
     (if set_type md = ''test'' then 0 else info_test_num (dm_info D))
     (sequence_size md) m (zip (matrix_rows features) labels) 0 = (err, n, exs)"
    using prod_cases3 by blast
  from convert_records [OF record_filepath_name loop, of dir name st fs] conv
  have rec: "records_at fs' (record_filepath dir name st) = Some exs" by simp
  from write_loop_ids [OF loop] st
  have ids: "map ex_id exs =
      map (\<lambda>i. int i + (if st = ''test'' then 0 else info_test_num (dm_info D)))
        [0..<length exs]"
    and len: "length exs \<le> length (zip (matrix_rows features) labels)"
    by simp_all
  have bound: "st = ''test'' \<longrightarrow> length exs \<le> shape0 (X_test (dm_data D))"
  proof
    assume t: "st = ''test''"
    with prep have "features = X_test (dm_data D)"
      using prepare_test_features by blast
    moreover have "length (matrix_rows features) = shape0 features"
      by (cases features) simp_all
    ultimately show "length exs \<le> shape0 (X_test (dm_data D))"
      using len by simp
  qed
  have other: "\<forall>p. fst p \<noteq> fst (record_filepath dir name st) \<longrightarrow> fs' p = fs p"
  proof (intro allI impI)
    fix p :: path
    assume "fst p \<noteq> fst (record_filepath dir name st)"
    from convert_other_directory [OF this, of md features labels "dm_info D" m fs] conv
    show "fs' p = fs p" by simp
  qed
  from rec ids bound other show ?thesis by blast
qed

lemma offset_ids_set:
  "set (map (\<lambda>i. int i + off) [0..<n]) = {off..<off + int n}"
proof -
  have "(\<lambda>i. int i + off) ` {0..<n} = {off..<off + int n}"
  proof (intro equalityI subsetI)
    fix x assume "x \<in> (\<lambda>i. int i + off) ` {0..<n}"
    then show "x \<in> {off..<off + int n}" by auto
  next
    fix x assume x: "x \<in> {off..<off + int n}"
    then have "nat (x - off) \<in> {0..<n}" and "x = int (nat (x - off)) + off"
      by auto
    then show "x \<in> (\<lambda>i. int i + off) ` {0..<n}" by (rule rev_image_eqI)
  qed
  then show ?thesis by simp
qed

lemma adult_test_prepared:
  "prepare_metadata_features_and_labels adult ''test'' None None None None =
     Inr (adult_test_metadata, Dense 2 [[0, 1], [1, 0], [1, 1]], [[0, 1], [1, 0], [0, 1]])"
  by (simp add: prepare_metadata_features_and_labels_def select_split_def adult_def
      adult_data_def adult_info_def normalize_labels_def binary_to_multilabel_map
      resolve_shape_def adult_test_metadata_def)

lemma adult_info_of: "dm_info adult = adult_info"
  by (simp add: adult_def)

lemma adult_run_ok: "fst adult_run = None"
  by (simp add: adult_run_def press_a_button_and_give_me_an_AutoDL_dataset_def
      format_split_def adult_test_prepared adult_train_prepared
      convert_vectors_to_sequence_example_def adult_test_metadata_def encode_example_def
      limit_reached_def dense_to_sparse_label_def adult_info_of adult_info_def)

text \<open>
  Claim C1, amended. When a dataset has been formatted without error, the identifiers
  in the test record file are the row indexes 0, 1, ... and those in the train record
  file are the row indexes plus the field \<^verbatim>\<open>test_num\<close> of the dataset information:
  with \<open>T\<close> test examples and \<open>N\<close> train examples written, the test identifiers are
  \<open>{0, ..., T-1}\<close> and the train identifiers are \<open>{test_num, ..., test_num+N-1}\<close>.
  \<open>T\<close> is at most the number of rows of the test matrix, and the two sets are disjoint
  whenever \<open>T\<close> is at most \<^verbatim>\<open>test_num\<close>.
\<close>

theorem train_ids_follow_test_num:
  assumes "press_a_button_and_give_me_an_AutoDL_dataset D name dir s0 r0 c0 ch0
             max_num_examples_train max_num_examples_test fs = (None, fs')"
  shows "\<exists>test_exs train_exs.
           records_at fs' (record_filepath dir name ''test'') = Some test_exs \<and>
           records_at fs' (record_filepath dir name ''train'') = Some train_exs \<and>
           map ex_id test_exs = map int [0..<length test_exs] \<and>
           map ex_id train_exs =
             map (\<lambda>i. int i + info_test_num (dm_info D)) [0..<length train_exs] \<and>
           set (map ex_id test_exs) = {0..<int (length test_exs)} \<and>
           set (map ex_id train_exs) =
             {info_test_num (dm_info D)..<
                info_test_num (dm_info D) + int (length train_exs)} \<and>
           length test_exs \<le> shape0 (X_test (dm_data D)) \<and>
           (int (length test_exs) \<le> info_test_num (dm_info D) \<longrightarrow>
              set (map ex_id test_exs) \<inter> set (map ex_id train_exs) = {})"
proof -
  from assms obtain fs1 where
    test: "format_split D name dir ''test'' s0 r0 c0 ch0 max_num_examples_test fs = (None, fs1)"
    and train: "format_split D name dir ''train'' s0 r0 c0 ch0 max_num_examples_train fs1 =
                  (None, fs')"
    by (auto simp: press_a_button_and_give_me_an_AutoDL_dataset_def
        split: prod.splits option.splits)
  from format_split_written [OF test] obtain test_exs where
    t: "records_at fs1 (record_filepath dir name ''test'') = Some test_exs"
      "map ex_id test_exs = map (\<lambda>i. int i + 0) [0..<length test_exs]"
      "length test_exs \<le> shape0 (X_test (dm_data D))"
    by auto
  from format_split_written [OF train] obtain train_exs where
    r: "records_at fs' (record_filepath dir name ''train'') = Some train_exs"
      "map ex_id train_exs =
         map (\<lambda>i. int i + info_test_num (dm_info D)) [0..<length train_exs]"
      "\<forall>p. fst p \<noteq> fst (record_filepath dir name ''train'') \<longrightarrow> fs' p = fs1 p"
    by auto
  from r(3) record_filepath_dirs
  have "fs' (record_filepath dir name ''test'') = fs1 (record_filepath dir name ''test'')"
    by blast
  with t(1) have t': "records_at fs' (record_filepath dir name ''test'') = Some test_exs"
    by (simp add: records_at_def)
  from t(2) have tl: "map ex_id test_exs = map int [0..<length test_exs]" by simp
  have ts: "set (map ex_id test_exs) = {0..<int (length test_exs)}"
    using offset_ids_set [of 0 "length test_exs"] t(2) by simp
  have rs: "set (map ex_id train_exs) =
      {info_test_num (dm_info D)..<info_test_num (dm_info D) + int (length train_exs)}"
    using offset_ids_set [of "info_test_num (dm_info D)" "length train_exs"] r(2) by simp
  have dj: "int (length test_exs) \<le> info_test_num (dm_info D) \<longrightarrow>
      set (map ex_id test_exs) \<inter> set (map ex_id train_exs) = {}"
    unfolding ts rs by auto
  from t' r(1) tl r(2) ts rs t(3) dj show ?thesis by blast
qed

theorem train_ids_follow_test_num_witness:
  "fst adult_run = None
   \<and> set (map ex_id (the (records_at (snd adult_run)
            (record_filepath ''out/adult.data'' ''adult'' ''test''))))
       \<inter> set (map ex_id (the (records_at (snd adult_run)
            (record_filepath ''out/adult.data'' ''adult'' ''train'')))) = {}
   \<and> set (map ex_id (the (records_at (snd adult_run)
            (record_filepath ''out/adult.data'' ''adult'' ''train'')))) =
       {3..<3 + int (length (the (records_at (snd adult_run)
            (record_filepath ''out/adult.data'' ''adult'' ''train''))))}"
proof -
  have run: "press_a_button_and_give_me_an_AutoDL_dataset adult ''adult'' ''out/adult.data''
       None None None None None None Map.empty = (None, snd adult_run)"
    using adult_run_ok by (simp add: adult_run_def prod_eq_iff)
  have n: "info_test_num (dm_info adult) = 3" and x: "shape0 (X_test (dm_data adult)) = 3"
    by (simp_all add: adult_def adult_info_def adult_data_def)
  from train_ids_follow_test_num [OF run] obtain test_exs train_exs where
    t: "records_at (snd adult_run) (record_filepath ''out/adult.data'' ''adult'' ''test'') =
          Some test_exs"
    and r: "records_at (snd adult_run) (record_filepath ''out/adult.data'' ''adult'' ''train'') =
          Some train_exs"
    and rs: "set (map ex_id train_exs) =
          {info_test_num (dm_info adult)..<
             info_test_num (dm_info adult) + int (length train_exs)}"
    and len: "length test_exs \<le> shape0 (X_test (dm_data adult))"
    and dj: "int (length test_exs) \<le> info_test_num (dm_info adult) \<longrightarrow>
          set (map ex_id test_exs) \<inter> set (map ex_id train_exs) = {}"
    by blast
  from len n x have "int (length test_exs) \<le> info_test_num (dm_info adult)"
    by simp
  with dj have "set (map ex_id test_exs) \<inter> set (map ex_id train_exs) = {}"
    by simp
  with rs n t r adult_run_ok show ?thesis
    by simp
qed

text \<open>
  Claim C1 as stated fails when the test split is cut: with three test rows,
  \<^verbatim>\<open>test_num\<close> 3 and at most two test examples, two test examples are written and the
  five train identifiers start at 3, not at 2.
\<close>

theorem truncated_test_split_leaves_gap:
  "fst adult_truncated_run = None
   \<and> info_test_num (dm_info adult) = 3
   \<and> map_option (map ex_id)
       (records_at (snd adult_truncated_run)
          (record_filepath ''out/adult.data'' ''adult'' ''test'')) = Some [0, 1]
   \<and> map_option (map ex_id)
       (records_at (snd adult_truncated_run)
          (record_filepath ''out/adult.data'' ''adult'' ''train'')) = Some [3, 4, 5, 6, 7]"
  by (simp add: adult_truncated_run_def press_a_button_and_give_me_an_AutoDL_dataset_def
      format_split_def adult_test_prepared adult_train_prepared
      convert_vectors_to_sequence_example_def adult_test_metadata_def encode_example_def
      limit_reached_def dense_to_sparse_label_def adult_info_of adult_info_def
      write_metadata_textproto_def records_at_def record_filepath_def)

end
